theory Spec2Isabelle
  imports Complex_Main
begin

section \<open>Python values\<close>

text \<open>
  The values that the program stores in dictionaries and writes to its JSON store. A
  dictionary with string keys is an association list with distinct keys, in insertion
  order. Floats are kept as the rational numbers they denote.
\<close>

datatype pyval =
    PNone
  | PBool bool
  | PInt int
  | PNum rat
  | PStr string
  | PList "pyval list"
  | PDict "(string \<times> pyval) list"

type_synonym pydict = "(string \<times> pyval) list"

datatype error =
    AttributeError string
  | TypeError string
  | FileNotFoundError
  | JSONDecodeError
  | ZeroDivisionError

text \<open>\<open>d.get(k, default)\<close>\<close>

definition dict_get :: "(string \<times> 'v) list \<Rightarrow> string \<Rightarrow> 'v \<Rightarrow> 'v" where
  "dict_get d k dflt = (case map_of d k of None \<Rightarrow> dflt | Some v \<Rightarrow> v)"

text \<open>\<open>d[k] = v\<close>: an existing key keeps its place, a new key goes last.\<close>

fun dict_set :: "string \<Rightarrow> 'v \<Rightarrow> (string \<times> 'v) list \<Rightarrow> (string \<times> 'v) list" where
  "dict_set k v [] = [(k, v)]"
| "dict_set k v ((k', v') # d) = (if k' = k then (k, v) # d else (k', v') # dict_set k v d)"

text \<open>
  \<open>a or b\<close> on optional strings: \<open>None\<close> and the empty string are false, and the
  operator returns its first true operand, else its second.
\<close>

definition py_or :: "string option \<Rightarrow> string option \<Rightarrow> string option" where
  "py_or a b = (case a of None \<Rightarrow> b | Some s \<Rightarrow> if s = [] then b else Some s)"

text \<open>\<open>str(n)\<close> of an int: decimal digits, with a minus sign below zero.\<close>

fun str_nat :: "nat \<Rightarrow> string" where
  "str_nat n = (if n < 10 then [''0123456789'' ! n] else str_nat (n div 10) @ [''0123456789'' ! (n mod 10)])"

definition str_int :: "int \<Rightarrow> string" where
  "str_int i = (if i < 0 then CHR ''-'' # str_nat (nat (- i)) else str_nat (nat i))"

definition opt_str :: "string option \<Rightarrow> pyval" where
  "opt_str x = (case x of None \<Rightarrow> PNone | Some s \<Rightarrow> PStr s)"

section \<open>Task state (core/state\_manager.py)\<close>

text \<open>
  The dataclass \<open>TaskState\<close>. Its field \<open>id\<close> is \<open>id_task\<close> here and its field
  \<open>tokens_used\<close> is \<open>tokens_used_task\<close>. \<open>TaskStatus\<close> is a type hint only: the
  status is whatever string was stored. Timestamps are ISO strings read from the clock.
\<close>

record TaskState =
  id_task :: string
  title :: string
  status :: string
  retry_count :: int
  last_failure :: "string option"
  started_at :: "string option"
  completed_at :: "string option"
  output_path :: "string option"
  spec_path :: "string option"
  tokens_used_task :: int

text \<open>The defaults of the dataclass, for the two required fields given.\<close>

definition TaskState_init :: "string \<Rightarrow> string \<Rightarrow> TaskState" where
  "TaskState_init i t =
     \<lparr>id_task = i, title = t, status = ''pending'', retry_count = 0, last_failure = None,
      started_at = None, completed_at = None, output_path = None, spec_path = None,
      tokens_used_task = 0\<rparr>"

text \<open>\<open>asdict(self)\<close>: every field, in declaration order.\<close>

definition to_dict :: "TaskState \<Rightarrow> pydict" where
  "to_dict t =
     [(''id'', PStr (id_task t)),
      (''title'', PStr (title t)),
      (''status'', PStr (status t)),
      (''retry_count'', PInt (retry_count t)),
      (''last_failure'', opt_str (last_failure t)),
      (''started_at'', opt_str (started_at t)),
      (''completed_at'', opt_str (completed_at t)),
      (''output_path'', opt_str (output_path t)),
      (''spec_path'', opt_str (spec_path t)),
      (''tokens_used'', PInt (tokens_used_task t))]"

definition dataclass_fields :: "string list" where
  "dataclass_fields =
     [''id'', ''title'', ''status'', ''retry_count'', ''last_failure'', ''started_at'',
      ''completed_at'', ''output_path'', ''spec_path'', ''tokens_used'']"

text \<open>
  Reading a stored value back into a typed field. Python stores whatever value the
  document holds; a value outside the annotated type of its field has no counterpart in
  the record and is reported as a \<open>TypeError\<close> of the model.
\<close>

fun as_str :: "pyval \<Rightarrow> error + string" where
  "as_str (PStr s) = Inr s"
| "as_str _ = Inl (TypeError ''str expected'')"

fun as_int :: "pyval \<Rightarrow> error + int" where
  "as_int (PInt n) = Inr n"
| "as_int _ = Inl (TypeError ''int expected'')"

fun as_opt_str :: "pyval \<Rightarrow> error + string option" where
  "as_opt_str PNone = Inr None"
| "as_opt_str (PStr s) = Inr (Some s)"
| "as_opt_str _ = Inl (TypeError ''Optional[str] expected'')"

text \<open>A keyword argument that may be absent: the default of the field then.\<close>

definition kwarg :: "pydict \<Rightarrow> string \<Rightarrow> (pyval \<Rightarrow> error + 'a) \<Rightarrow> 'a \<Rightarrow> error + 'a" where
  "kwarg kw k conv dflt = (case map_of kw k of None \<Rightarrow> Inr dflt | Some v \<Rightarrow> conv v)"

definition bind_err :: "error + 'a \<Rightarrow> ('a \<Rightarrow> error + 'b) \<Rightarrow> error + 'b" where
  "bind_err m f = (case m of Inl e \<Rightarrow> Inl e | Inr x \<Rightarrow> f x)"

text \<open>
  \<^verbatim>\<open>return cls(**{k: v for k, v in data.items() if k in cls.__dataclass_fields__})\<close>:
  unknown keys are dropped; \<open>id\<close> and \<open>title\<close> have no default, so the constructor
  raises \<open>TypeError\<close> without them.
\<close>

definition from_dict :: "pydict \<Rightarrow> error + TaskState" where
  "from_dict data =
     (let kw = filter (\<lambda>(k, v). k \<in> set dataclass_fields) data in
      case map_of kw ''id'' of
        None \<Rightarrow> Inl (TypeError ''missing required argument id'')
      | Some vi \<Rightarrow>
      (case map_of kw ''title'' of
        None \<Rightarrow> Inl (TypeError ''missing required argument title'')
      | Some vt \<Rightarrow>
        bind_err (as_str vi) (\<lambda>i.
        bind_err (as_str vt) (\<lambda>t.
        bind_err (kwarg kw ''status'' as_str ''pending'') (\<lambda>st.
        bind_err (kwarg kw ''retry_count'' as_int 0) (\<lambda>rc.
        bind_err (kwarg kw ''last_failure'' as_opt_str None) (\<lambda>lf.
        bind_err (kwarg kw ''started_at'' as_opt_str None) (\<lambda>sa.
        bind_err (kwarg kw ''completed_at'' as_opt_str None) (\<lambda>ca.
        bind_err (kwarg kw ''output_path'' as_opt_str None) (\<lambda>op.
        bind_err (kwarg kw ''spec_path'' as_opt_str None) (\<lambda>sp.
        bind_err (kwarg kw ''tokens_used'' as_int 0) (\<lambda>tu.
          Inr \<lparr>id_task = i, title = t, status = st, retry_count = rc, last_failure = lf,
               started_at = sa, completed_at = ca, output_path = op, spec_path = sp,
               tokens_used_task = tu\<rparr>))))))))))))"

record PRDState =
  prd_file :: string
  version :: string
  tasks :: "TaskState list"
  created_at :: string
  updated_at :: string

definition PRDState_to_dict :: "PRDState \<Rightarrow> pydict" where
  "PRDState_to_dict s =
     [(''prd_file'', PStr (prd_file s)),
      (''version'', PStr (version s)),
      (''tasks'', PList (map (\<lambda>t. PDict (to_dict t)) (tasks s))),
      (''created_at'', PStr (created_at s)),
      (''updated_at'', PStr (updated_at s))]"

section \<open>StateManager (core/state\_manager.py)\<close>

text \<open>
  The file at \<open>state_path\<close> is part of the state: it is missing, or unreadable as JSON,
  or it holds the JSON text of a value. \<open>json.dump\<close> followed by \<open>json.load\<close> gives back
  the value written (strings, ints, \<open>None\<close>, lists and string-keyed dicts); that is the
  library's contract and is not modelled further. A failing write is not modelled.
\<close>

datatype store_file = Missing | Malformed | Json pyval

record StateManager =
  state :: PRDState
  store :: store_file

text \<open>
  \<^verbatim>\<open>self.state.updated_at = datetime.now(timezone.utc).isoformat()\<close>, then the
  document is written. The clock reading is the parameter \<open>now\<close>.
\<close>

definition save :: "string \<Rightarrow> StateManager \<Rightarrow> StateManager" where
  "save now self =
     (let st = (state self)\<lparr>updated_at := now\<rparr>
      in self\<lparr>state := st, store := Json (PDict (PRDState_to_dict st))\<rparr>)"

fun load_tasks :: "pyval list \<Rightarrow> error + TaskState list" where
  "load_tasks [] = Inr []"
| "load_tasks (PDict d # rest) =
     bind_err (from_dict d) (\<lambda>t. bind_err (load_tasks rest) (\<lambda>ts. Inr (t # ts)))"
| "load_tasks (_ # rest) = Inl (AttributeError ''items'')"

text \<open>
  \<open>_load\<close>: \<^verbatim>\<open>tasks = [TaskState.from_dict(t) for t in data.get("tasks", [])]\<close> and
  the four other keys with their defaults.
\<close>

definition load :: "StateManager \<Rightarrow> error + StateManager" where
  "load self =
     (case store self of
        Missing \<Rightarrow> Inl FileNotFoundError
      | Malformed \<Rightarrow> Inl JSONDecodeError
      | Json (PDict data) \<Rightarrow>
          (case dict_get data ''tasks'' (PList []) of
             PList ts \<Rightarrow>
               bind_err (load_tasks ts) (\<lambda>tasks'.
               bind_err (as_str (dict_get data ''prd_file'' (PStr ''specs/prd.md''))) (\<lambda>pf.
               bind_err (as_str (dict_get data ''version'' (PStr ''1.0''))) (\<lambda>ve.
               bind_err (as_str (dict_get data ''created_at'' (PStr []))) (\<lambda>cr.
               bind_err (as_str (dict_get data ''updated_at'' (PStr []))) (\<lambda>up.
                 Inr (self\<lparr>state := \<lparr>prd_file = pf, version = ve, tasks = tasks',
                                      created_at = cr, updated_at = up\<rparr>\<rparr>))))))
           | _ \<Rightarrow> Inl (TypeError ''tasks is not a list''))
      | Json _ \<Rightarrow> Inl (AttributeError ''get''))"

text \<open>
  \<open>__init__\<close> with \<open>_load_or_create\<close>: an existing file is loaded, and \<open>_load\<close>
  replaces the whole state, so the state before it (\<open>None\<close> in the source) is
  immaterial and stands here as an empty plan; without a file a new empty plan is
  created and saved.
\<close>

definition StateManager_init :: "string \<Rightarrow> store_file \<Rightarrow> error + StateManager" where
  "StateManager_init now f =
     (let empty_plan = \<lparr>prd_file = ''specs/prd.md'', version = ''1.0'', tasks = [],
                         created_at = now, updated_at = now\<rparr>
      in if f \<noteq> Missing then load \<lparr>state = empty_plan, store = f\<rparr>
         else Inr (save now \<lparr>state = empty_plan, store = f\<rparr>))"

text \<open>
  A task object is referred to by its position in \<open>self.state.tasks\<close>; assigning to an
  attribute of the object updates the list at that position.
\<close>

fun find_first :: "('a \<Rightarrow> bool) \<Rightarrow> 'a list \<Rightarrow> nat option" where
  "find_first P [] = None"
| "find_first P (x # xs) =
     (if P x then Some 0 else (case find_first P xs of None \<Rightarrow> None | Some i \<Rightarrow> Some (Suc i)))"

definition set_task :: "nat \<Rightarrow> TaskState \<Rightarrow> StateManager \<Rightarrow> StateManager" where
  "set_task i t self = self\<lparr>state := (state self)\<lparr>tasks := (tasks (state self))[i := t]\<rparr>\<rparr>"

definition get_next_task :: "string \<Rightarrow> StateManager \<Rightarrow> nat option \<times> StateManager" where
  "get_next_task now self =
     (case find_first (\<lambda>t. status t = ''pending'') (tasks (state self)) of
        None \<Rightarrow> (None, self)
      | Some i \<Rightarrow>
          (let t = tasks (state self) ! i;
               t1 = t\<lparr>status := ''in_progress''\<rparr>;
               t2 = t1\<lparr>started_at := Some now\<rparr>
           in (Some i, save now (set_task i t2 self))))"

definition get_task :: "string \<Rightarrow> StateManager \<Rightarrow> nat option" where
  "get_task task_id self = find_first (\<lambda>t. id_task t = task_id) (tasks (state self))"

definition mark_complete :: "string \<Rightarrow> string \<Rightarrow> StateManager \<Rightarrow> StateManager" where
  "mark_complete now task_id self =
     (case get_task task_id self of
        None \<Rightarrow> self
      | Some i \<Rightarrow>
          (let t = tasks (state self) ! i;
               t1 = t\<lparr>status := ''complete''\<rparr>;
               t2 = t1\<lparr>completed_at := Some now\<rparr>
           in save now (set_task i t2 self)))"

definition mark_failed :: "string \<Rightarrow> string \<Rightarrow> StateManager \<Rightarrow> StateManager" where
  "mark_failed now task_id self =
     (case get_task task_id self of
        None \<Rightarrow> self
      | Some i \<Rightarrow>
          (let t = tasks (state self) ! i;
               t1 = t\<lparr>status := ''failed''\<rparr>
           in save now (set_task i t1 self)))"

text \<open>
  \<^verbatim>\<open>task.retry_count += 1; task.last_failure = reason; task.status = "pending";
  self._save()\<close>. The engine passes a gate result's \<open>failure_reason\<close>, which may be
  \<open>None\<close>.
\<close>

definition log_retry :: "string \<Rightarrow> string \<Rightarrow> string option \<Rightarrow> StateManager \<Rightarrow> StateManager" where
  "log_retry now task_id reason self =
     (case get_task task_id self of
        None \<Rightarrow> self
      | Some i \<Rightarrow>
          (let t = tasks (state self) ! i;
               t1 = t\<lparr>retry_count := retry_count t + 1\<rparr>;
               t2 = t1\<lparr>last_failure := reason\<rparr>;
               t3 = t2\<lparr>status := ''pending''\<rparr>
           in save now (set_task i t3 self)))"

definition is_complete :: "StateManager \<Rightarrow> bool" where
  "is_complete self =
     (if tasks (state self) = [] then True
      else list_all (\<lambda>t. status t \<in> {''complete'', ''failed''}) (tasks (state self)))"

section \<open>TokenCounter (core/token\_counter.py)\<close>

text \<open>
  The counter is an object with three mutable attributes. Python's unbounded \<open>int\<close> is
  \<^typ>\<open>int\<close>; \<open>len(text)\<close> is the length of the character list. Each method takes the
  object and returns the updated object beside its result.
\<close>

record TokenCounter =
  max_tokens :: int
  current_tokens :: int
  context_buffer :: string

definition TokenCounter_init :: "int \<Rightarrow> TokenCounter" where
  "TokenCounter_init m = \<lparr>max_tokens = m, current_tokens = 0, context_buffer = []\<rparr>"

text \<open>\<^verbatim>\<open>return len(text) // 4\<close>\<close>

definition estimate_tokens :: "string \<Rightarrow> int" where
  "estimate_tokens text = int (length text) div 4"

text \<open>
  \<^verbatim>\<open>tokens = self._estimate_tokens(text); self.current_tokens += tokens;
  self.context_buffer += text; return self.current_tokens\<close>
\<close>

definition add :: "string \<Rightarrow> TokenCounter \<Rightarrow> int \<times> TokenCounter" where
  "add text self =
     (let tokens = estimate_tokens text;
          self1 = self\<lparr>current_tokens := current_tokens self + tokens\<rparr>;
          self2 = self1\<lparr>context_buffer := context_buffer self1 @ text\<rparr>
      in (current_tokens self2, self2))"

text \<open>
  \<open>a / b\<close> on two Python ints: \<open>ZeroDivisionError\<close> for a zero divisor, else the
  quotient. Python returns the double nearest to the exact quotient; the model keeps
  the exact quotient, a rational.
\<close>

definition py_truediv :: "int \<Rightarrow> int \<Rightarrow> error + rat" where
  "py_truediv a b = (if b = 0 then Inl ZeroDivisionError else Inr (of_int a / of_int b))"

text \<open>
  \<^verbatim>\<open>return self.current_tokens / self.max_tokens if self.max_tokens > 0 else 0\<close>
\<close>

definition get_usage_ratio :: "TokenCounter \<Rightarrow> error + rat" where
  "get_usage_ratio self =
     (if max_tokens self > 0 then py_truediv (current_tokens self) (max_tokens self)
      else Inr 0)"

definition get_usage :: "TokenCounter \<Rightarrow> int" where
  "get_usage self = current_tokens self"

definition get_context :: "TokenCounter \<Rightarrow> string" where
  "get_context self = context_buffer self"

definition reset :: "TokenCounter \<Rightarrow> TokenCounter" where
  "reset self = self\<lparr>current_tokens := 0, context_buffer := []\<rparr>"

definition reset_with_summary :: "string \<Rightarrow> TokenCounter \<Rightarrow> TokenCounter" where
  "reset_with_summary summary self = snd (add summary (reset self))"

definition should_distill :: "rat \<Rightarrow> TokenCounter \<Rightarrow> error + bool" where
  "should_distill threshold self =
     bind_err (get_usage_ratio self) (\<lambda>ratio. Inr (ratio > threshold))"

text \<open>A run of \<open>add\<close> calls, one per text, on the same counter.\<close>

fun add_all :: "string list \<Rightarrow> TokenCounter \<Rightarrow> TokenCounter" where
  "add_all [] self = self"
| "add_all (t # ts) self = add_all ts (snd (add t self))"

section \<open>The seven gates (core/oracle\_gates.py)\<close>

record GateResult =
  passed :: bool
  gate_status :: "(string \<times> bool) list"
  failure_reason :: "string option"
  tokens_used :: int
  details :: "(string \<times> pydict) list"

record GateConfig =
  enabled :: bool
  threshold :: rat
  auto_fix :: bool
  max_attempts :: int

definition GateConfig_init :: "bool \<Rightarrow> rat \<Rightarrow> GateConfig" where
  "GateConfig_init e th = \<lparr>enabled = e, threshold = th, auto_fix = False, max_attempts = 3\<rparr>"

text \<open>
  \<open>self.gates\<close> is a dictionary with the seven fixed keys of \<open>__init__\<close>; it is read
  only by subscripting with those keys, so it is a record with one field per key.
  \<open>_load_config\<close> changes \<open>enabled\<close> and \<open>threshold\<close> of a gate and nothing else.
\<close>

record Gates =
  technical :: GateConfig
  virtue :: GateConfig
  ethics :: GateConfig
  judge :: GateConfig
  strategy :: GateConfig
  perception :: GateConfig
  effort :: GateConfig

definition OracleGatekeeper_init :: Gates where
  "OracleGatekeeper_init =
     \<lparr>technical = GateConfig_init True (4 / 5),
      virtue = GateConfig_init True (199 / 200),
      ethics = GateConfig_init True 0,
      judge = GateConfig_init True 0,
      strategy = GateConfig_init True 0,
      perception = GateConfig_init False 0,
      effort = GateConfig_init True 0\<rparr>"

text \<open>
  What the gates observe of the world outside the program.
  \<^item> \<open>pytest\<close>: the run raised \<open>TimeoutExpired\<close> or \<open>FileNotFoundError\<close>, or it ended
    with a return code and the percentage of the last \<open>TOTAL\<close> line of its output, if
    there was one.
  \<^item> \<open>ruff\<close>: likewise, with a return code only.
  \<^item> \<open>validate_artifact\<close> and \<open>check_charter_safe\<close>: \<open>None\<close> when the import raises
    \<open>ImportError\<close>, else the function called on the task's output path. Its result is
    a dictionary read with \<open>get\<close>, so every key of it is optional.
  \<^item> the three float formats of the reason strings (\<open>:.0%\<close>, \<open>:.3f\<close> and \<open>str\<close>).
  A tool that fails in another way (an exception that the gate does not catch, a
  percentage that is not a number) lets the exception leave \<open>verify_all\<close>; such
  runs are outside this record.
\<close>

datatype pytest_run = PytestRaised | PytestRan int "rat option"

datatype ruff_run = RuffRaised | RuffRan int

record validate_result =
  alignment_score :: "rat option"
  tokens_used_result :: "int option"

record charter_result =
  charter_safe :: "bool option"
  violations :: "pyval option"

record gate_env =
  pytest :: pytest_run
  ruff :: ruff_run
  validate_artifact :: "(string option \<Rightarrow> validate_result) option"
  check_charter_safe :: "(string option \<Rightarrow> charter_result) option"
  fmt_percent :: "rat \<Rightarrow> string"
  fmt_3f :: "rat \<Rightarrow> string"
  fmt_float :: "rat \<Rightarrow> string"

text \<open>
  A gate returns a dictionary. Each of the seven gates stores a bool under \<open>passed\<close>
  on every path, so \<open>gate["passed"]\<close> never raises \<open>KeyError\<close>;
  \<open>gate.get("reason")\<close> is \<open>None\<close> for a missing key as for a stored \<open>None\<close>;
  \<open>gate.get("tokens", 0)\<close> is an int where the key is present.
\<close>

definition gate_passed :: "pydict \<Rightarrow> bool" where
  "gate_passed g = (dict_get g ''passed'' PNone = PBool True)"

definition gate_reason :: "pydict \<Rightarrow> string option" where
  "gate_reason g = (case dict_get g ''reason'' PNone of PStr s \<Rightarrow> Some s | _ \<Rightarrow> None)"

definition gate_tokens :: "pydict \<Rightarrow> int" where
  "gate_tokens g = (case dict_get g ''tokens'' (PInt 0) of PInt n \<Rightarrow> n | _ \<Rightarrow> 0)"

definition gate_technical :: "Gates \<Rightarrow> gate_env \<Rightarrow> TaskState \<Rightarrow> pydict" where
  "gate_technical gates env task =
     (let pytest_passed = (case pytest env of PytestRaised \<Rightarrow> False | PytestRan rc _ \<Rightarrow> rc = 0);
          coverage = (case pytest env of
                        PytestRan _ (Some pct) \<Rightarrow> pct / 100
                      | _ \<Rightarrow> 0);
          lint_passed = (case ruff env of RuffRaised \<Rightarrow> True | RuffRan rc \<Rightarrow> rc = 0);
          threshold = threshold (technical gates);
          coverage_passed = (coverage \<ge> threshold);
          passed = (pytest_passed \<and> lint_passed \<and> coverage_passed)
      in [(''passed'', PBool passed),
          (''pytest'', PBool pytest_passed),
          (''lint'', PBool lint_passed),
          (''coverage'', PNum coverage),
          (''coverage_threshold'', PNum threshold),
          (''reason'', if passed then PNone
                       else PStr (''Technical checks failed (coverage: '' @
                                  fmt_percent env coverage @ '')''))])"

definition gate_virtue :: "Gates \<Rightarrow> gate_env \<Rightarrow> TaskState \<Rightarrow> pydict" where
  "gate_virtue gates env task =
     (case validate_artifact env of
        Some validate \<Rightarrow>
          (let result = validate (output_path task);
               score = (case alignment_score result of None \<Rightarrow> 0 | Some s \<Rightarrow> s);
               threshold = threshold (virtue gates);
               passed = (score \<ge> threshold)
           in [(''passed'', PBool passed),
               (''alignment_score'', PNum score),
               (''threshold'', PNum threshold),
               (''tokens'', PInt (case tokens_used_result result of None \<Rightarrow> 0 | Some n \<Rightarrow> n)),
               (''reason'', if passed then PNone
                            else PStr (''Alignment score '' @ fmt_3f env score @ '' < '' @
                                       fmt_float env threshold))])
      | None \<Rightarrow>
          [(''passed'', PBool True), (''alignment_score'', PNum 1), (''tokens'', PInt 0)])"

definition gate_ethics :: "Gates \<Rightarrow> gate_env \<Rightarrow> TaskState \<Rightarrow> pydict" where
  "gate_ethics gates env task =
     (case check_charter_safe env of
        Some check \<Rightarrow>
          (let result = check (output_path task);
               passed = (case charter_safe result of None \<Rightarrow> False | Some b \<Rightarrow> b)
           in [(''passed'', PBool passed),
               (''charter_safe'', PBool passed),
               (''violations'', (case violations result of None \<Rightarrow> PList [] | Some v \<Rightarrow> v)),
               (''reason'', if passed then PNone else PStr ''Charter violations detected'')])
      | None \<Rightarrow>
          [(''passed'', PBool True), (''charter_safe'', PBool True)])"

definition gate_judge :: "TaskState \<Rightarrow> pydict" where
  "gate_judge task =
     [(''passed'', PBool True), (''match_score'', PNum 1), (''tokens'', PInt 0),
      (''reason'', PNone)]"

definition gate_strategy :: "TaskState \<Rightarrow> pydict" where
  "gate_strategy task =
     [(''passed'', PBool True), (''tech_debt_score'', PNum 0), (''reason'', PNone)]"

definition gate_perception :: "TaskState \<Rightarrow> pydict" where
  "gate_perception task =
     [(''passed'', PBool True), (''visual_match'', PNum 1), (''tokens'', PInt 0),
      (''reason'', PNone)]"

text \<open>
  \<^verbatim>\<open>max_tokens = 50000  # Per task limit\<close> is a local constant of the method; the
  method reads nothing of \<open>self.gates\<close>.
\<close>

definition gate_effort :: "TaskState \<Rightarrow> int \<Rightarrow> pydict" where
  "gate_effort task tokens =
     (let max_tokens = (50000 :: int);
          passed = (tokens \<le> max_tokens)
      in [(''passed'', PBool passed),
          (''tokens_used'', PInt tokens),
          (''max_tokens'', PInt max_tokens),
          (''budget_ratio'', if max_tokens > 0 then PNum (of_int tokens / of_int max_tokens)
                             else PInt 0),
          (''reason'', if passed then PNone
                       else PStr (''Token budget exceeded: '' @ str_int tokens @ ''/'' @
                                  str_int max_tokens))])"

text \<open>
  The local variables of \<open>verify_all\<close>.
\<close>

record verify_locals =
  results :: "(string \<times> bool) list"
  details_l :: "(string \<times> pydict) list"
  all_passed :: bool
  failure_reason_l :: "string option"
  total_tokens :: int

definition verify_init :: verify_locals where
  "verify_init =
     \<lparr>results = [], details_l = [], all_passed = True, failure_reason_l = None,
      total_tokens = 0\<rparr>"

text \<open>
  The statements that the seven blocks of the method share:
  \<^verbatim>\<open>results[name] = gate["passed"]; details[name] = gate\<close>
\<close>

definition store_gate :: "string \<Rightarrow> pydict \<Rightarrow> verify_locals \<Rightarrow> verify_locals" where
  "store_gate name gate l =
     (let l1 = l\<lparr>results := dict_set name (gate_passed gate) (results l)\<rparr>
      in l1\<lparr>details_l := dict_set name gate (details_l l1)\<rparr>)"

text \<open>\<^verbatim>\<open>total_tokens += gate.get("tokens", 0)\<close>\<close>

definition count_tokens :: "pydict \<Rightarrow> verify_locals \<Rightarrow> verify_locals" where
  "count_tokens gate l = l\<lparr>total_tokens := total_tokens l + gate_tokens gate\<rparr>"

text \<open>
  \<^verbatim>\<open>if not gate["passed"]: all_passed = False;
  failure_reason = failure_reason or gate.get("reason")\<close>
\<close>

definition note_failure :: "pydict \<Rightarrow> verify_locals \<Rightarrow> verify_locals" where
  "note_failure gate l =
     (if \<not> gate_passed gate
      then (let l1 = l\<lparr>all_passed := False\<rparr>
            in l1\<lparr>failure_reason_l := py_or (failure_reason_l l1) (gate_reason gate)\<rparr>)
      else l)"

text \<open>The seven blocks of \<open>verify_all\<close>, one per comment \<open># Gate n\<close>, in its order.\<close>

definition block_technical ::
  "Gates \<Rightarrow> gate_env \<Rightarrow> TaskState \<Rightarrow> verify_locals \<Rightarrow> verify_locals" where
  "block_technical gates env task l =
     (if enabled (technical gates)
      then (let gate1 = gate_technical gates env task
            in note_failure gate1 (store_gate ''technical'' gate1 l))
      else l)"

definition block_virtue ::
  "Gates \<Rightarrow> gate_env \<Rightarrow> TaskState \<Rightarrow> verify_locals \<Rightarrow> verify_locals" where
  "block_virtue gates env task l =
     (if enabled (virtue gates)
      then (let gate2 = gate_virtue gates env task
            in note_failure gate2 (count_tokens gate2 (store_gate ''virtue'' gate2 l)))
      else l)"

definition block_ethics ::
  "Gates \<Rightarrow> gate_env \<Rightarrow> TaskState \<Rightarrow> verify_locals \<Rightarrow> verify_locals" where
  "block_ethics gates env task l =
     (if enabled (ethics gates)
      then (let gate3 = gate_ethics gates env task
            in note_failure gate3 (store_gate ''ethics'' gate3 l))
      else l)"

definition block_judge :: "Gates \<Rightarrow> TaskState \<Rightarrow> verify_locals \<Rightarrow> verify_locals" where
  "block_judge gates task l =
     (if enabled (judge gates)
      then (let gate4 = gate_judge task
            in note_failure gate4 (count_tokens gate4 (store_gate ''judge'' gate4 l)))
      else l)"

definition block_strategy :: "Gates \<Rightarrow> TaskState \<Rightarrow> verify_locals \<Rightarrow> verify_locals" where
  "block_strategy gates task l =
     (if enabled (strategy gates)
      then (let gate5 = gate_strategy task
            in note_failure gate5 (store_gate ''strategy'' gate5 l))
      else l)"

definition block_perception :: "Gates \<Rightarrow> TaskState \<Rightarrow> verify_locals \<Rightarrow> verify_locals" where
  "block_perception gates task l =
     (if enabled (perception gates)
      then (let gate6 = gate_perception task
            in note_failure gate6 (count_tokens gate6 (store_gate ''perception'' gate6 l)))
      else l\<lparr>results := dict_set ''perception'' True (results l)\<rparr>)"

definition block_effort :: "Gates \<Rightarrow> TaskState \<Rightarrow> verify_locals \<Rightarrow> verify_locals" where
  "block_effort gates task l =
     (if enabled (effort gates)
      then (let gate7 = gate_effort task (total_tokens l)
            in note_failure gate7 (store_gate ''effort'' gate7 l))
      else l)"

definition run_gates :: "Gates \<Rightarrow> gate_env \<Rightarrow> TaskState \<Rightarrow> verify_locals" where
  "run_gates gates env task =
     block_effort gates task
       (block_perception gates task
         (block_strategy gates task
           (block_judge gates task
             (block_ethics gates env task
               (block_virtue gates env task
                 (block_technical gates env task verify_init))))))"

definition verify_all :: "Gates \<Rightarrow> gate_env \<Rightarrow> TaskState \<Rightarrow> GateResult" where
  "verify_all gates env task =
     (let l = run_gates gates env task
      in \<lparr>passed = all_passed l,
          gate_status = results l,
          failure_reason = failure_reason_l l,
          tokens_used = total_tokens l,
          details = details_l l\<rparr>)"

section \<open>The HITL controller (core/hitl\_controller.py)\<close>

datatype HITLReason =
  HIGH_RISK | MAJOR_CHANGE | COST_THRESHOLD | GATE_FAILURE | SCHEDULED | EXPLICIT_REQUEST

datatype HITLStatus = PENDING | APPROVED | REJECTED | TIMEOUT | AUTO_APPROVED

text \<open>
  The dataclass \<open>HITLCheckpoint\<close>; its \<open>status\<close>, \<open>created_at\<close>, \<open>context\<close> and \<open>notes\<close> carry the suffix
  \<open>_hitl\<close> here, since the task state has fields of the same names.
\<close>

record HITLCheckpoint =
  checkpoint_id :: string
  task_id :: string
  reason :: HITLReason
  description :: string
  context_hitl :: pydict
  status_hitl :: HITLStatus
  created_at_hitl :: string
  resolved_at :: "string option"
  resolved_by :: "string option"
  notes_hitl :: "string option"

text \<open>The two module constants that the controller reads, taken from the environment.\<close>

record hitl_config =
  HITL_TIMEOUT_MINUTES :: int
  HITL_AUTO_APPROVE_LOW_RISK :: bool

text \<open>
  A call of a notification collaborator, with the id of the checkpoint it was given.
  What the collaborator does with it (and whether it succeeds) stays outside.
\<close>

datatype notification = Email string | Webhook string

text \<open>
  Checkpoint objects are shared: the one that \<open>checkpoint\<close> creates is the one stored
  in \<open>pending_checkpoints\<close> and the one that \<open>resolve\<close> and the wait loop assign to.
  So the objects live in a store, \<open>objects\<close>, addressed by position, and the dictionary
  maps a checkpoint id to an address. \<open>sent\<close> lists the collaborator calls made so far.
\<close>

record HITLController =
  base_url :: string
  stationary :: bool
  objects :: "HITLCheckpoint list"
  pending_checkpoints :: "string \<rightharpoonup> nat"
  sent :: "notification list"
  task_counter :: int
  check_interval :: int

definition HITLController_init :: "string \<Rightarrow> bool \<Rightarrow> HITLController" where
  "HITLController_init url st =
     \<lparr>base_url = url, stationary = st, objects = [], pending_checkpoints = Map.empty,
      sent = [], task_counter = 0, check_interval = 5\<rparr>"

definition set_object :: "nat \<Rightarrow> HITLCheckpoint \<Rightarrow> HITLController \<Rightarrow> HITLController" where
  "set_object a c self = self\<lparr>objects := (objects self)[a := c]\<rparr>"

text \<open>
  \<open>resolve\<close> returns the checkpoint object (its address), or \<open>None\<close> for an id that is
  not a key of \<open>pending_checkpoints\<close>.
\<close>

definition resolve ::
  "string \<Rightarrow> string \<Rightarrow> bool \<Rightarrow> string option \<Rightarrow> string \<Rightarrow> HITLController
     \<Rightarrow> nat option \<times> HITLController" where
  "resolve now cid approved nts by self =
     (case pending_checkpoints self cid of
        None \<Rightarrow> (None, self)
      | Some a \<Rightarrow>
          (let c = objects self ! a;
               c1 = c\<lparr>status_hitl := (if approved then APPROVED else REJECTED)\<rparr>;
               c2 = c1\<lparr>resolved_at := Some now\<rparr>;
               c3 = c2\<lparr>resolved_by := Some by\<rparr>;
               c4 = c3\<lparr>notes_hitl := nts\<rparr>;
               self1 = set_object a c4 self;
               self2 = self1\<lparr>pending_checkpoints := (pending_checkpoints self1)(cid := None)\<rparr>
           in (Some a, self2)))"

text \<open>
  While the controller awaits (a notification or a sleep), other coroutines run; what
  they can do to the controller is call \<open>resolve\<close>. One such call:
\<close>

record resolve_call =
  call_id :: string
  call_approved :: bool
  call_notes :: "string option"
  call_by :: string
  call_now :: string

fun run_calls :: "resolve_call list \<Rightarrow> HITLController \<Rightarrow> HITLController" where
  "run_calls [] self = self"
| "run_calls (c # cs) self =
     run_calls cs
       (snd (resolve (call_now c) (call_id c) (call_approved c) (call_notes c) (call_by c) self))"

text \<open>
  \<open>_notify\<close>: the email only when the human is away, the webhook always. Neither
  result is read.
\<close>

definition notify :: "nat \<Rightarrow> HITLController \<Rightarrow> HITLController" where
  "notify a self =
     (let cid = checkpoint_id (objects self ! a);
          self1 = (if \<not> stationary self then self\<lparr>sent := sent self @ [Email cid]\<rparr> else self)
      in self1\<lparr>sent := sent self1 @ [Webhook cid]\<rparr>)"

text \<open>
  \<open>_wait_for_resolution\<close>. \<open>sleeps\<close> gives, for each \<open>asyncio.sleep\<close> of the loop in
  turn, the calls of \<open>resolve\<close> made by others during it; when the list is used up no
  further call comes. \<open>elapsed\<close> grows by the poll interval of 5 seconds on every
  round, so the loop ends.
\<close>

function wait_loop ::
  "int \<Rightarrow> string \<Rightarrow> int \<Rightarrow> nat \<Rightarrow> int \<Rightarrow> resolve_call list list \<Rightarrow> HITLController
     \<Rightarrow> HITLStatus \<times> HITLController" where
  "wait_loop timeout_minutes now timeout_seconds a elapsed sleeps self =
     (if elapsed < timeout_seconds then
        (case pending_checkpoints self (checkpoint_id (objects self ! a)) of
           None \<Rightarrow> (status_hitl (objects self ! a), self)
         | Some cur \<Rightarrow>
             if status_hitl (objects self ! cur) \<noteq> PENDING
             then (status_hitl (objects self ! cur), self)
             else wait_loop timeout_minutes now timeout_seconds a (elapsed + 5)
                    (case sleeps of [] \<Rightarrow> [] | _ # rest \<Rightarrow> rest)
                    (case sleeps of [] \<Rightarrow> self | calls # _ \<Rightarrow> run_calls calls self))
      else
        (let c = objects self ! a;
             c1 = c\<lparr>status_hitl := TIMEOUT\<rparr>;
             c2 = c1\<lparr>resolved_at := Some now\<rparr>;
             c3 = c2\<lparr>notes_hitl := Some (''Timed out after '' @ str_int timeout_minutes @ '' minutes'')\<rparr>
         in (TIMEOUT, set_object a c3 self)))"
  by pat_completeness auto
termination
  by (relation "measure (\<lambda>(tm, now, ts, a, elapsed, sleeps, self). nat (ts - elapsed))") auto

declare wait_loop.simps [simp del]

definition wait_for_resolution ::
  "int \<Rightarrow> string \<Rightarrow> nat \<Rightarrow> resolve_call list list \<Rightarrow> HITLController
     \<Rightarrow> HITLStatus \<times> HITLController" where
  "wait_for_resolution timeout_minutes now a sleeps self =
     wait_loop timeout_minutes now (timeout_minutes * 60) a 0 sleeps self"

text \<open>
  \<open>checkpoint\<close>. \<open>cid\<close> is the fresh identifier (\<open>HITL-\<close> and eight hex digits of a
  UUID), \<open>now\<close> the clock at creation and \<open>now'\<close> the clock at the end of the call;
  \<open>during_notify\<close> are the calls of \<open>resolve\<close> made by others while the notifications
  are awaited.
\<close>

definition checkpoint ::
  "hitl_config \<Rightarrow> string \<Rightarrow> string \<Rightarrow> string \<Rightarrow> resolve_call list \<Rightarrow> resolve_call list list
     \<Rightarrow> string \<Rightarrow> HITLReason \<Rightarrow> string \<Rightarrow> pydict option \<Rightarrow> bool \<Rightarrow> HITLController
     \<Rightarrow> HITLStatus \<times> HITLController" where
  "checkpoint cfg cid now now' during_notify sleeps tid rsn descr ctx blocking self =
     (let c = \<lparr>checkpoint_id = cid, task_id = tid, reason = rsn, description = descr,
               context_hitl = (case ctx of None \<Rightarrow> [] | Some d \<Rightarrow> d), status_hitl = PENDING,
               created_at_hitl = now, resolved_at = None, resolved_by = None, notes_hitl = None\<rparr>;
          a = length (objects self);
          self0 = self\<lparr>objects := objects self @ [c]\<rparr>
      in if rsn = SCHEDULED \<and> HITL_AUTO_APPROVE_LOW_RISK cfg then
           (let c1 = c\<lparr>status_hitl := AUTO_APPROVED\<rparr>;
                c2 = c1\<lparr>resolved_at := Some now'\<rparr>;
                c3 = c2\<lparr>notes_hitl := Some ''Auto-approved (low risk)''\<rparr>
            in (status_hitl c3, set_object a c3 self0))
         else
           (let self1 = self0\<lparr>pending_checkpoints := (pending_checkpoints self0)(cid \<mapsto> a)\<rparr>;
                self2 = run_calls during_notify (notify a self1)
            in if \<not> blocking then (PENDING, self2)
               else wait_for_resolution (HITL_TIMEOUT_MINUTES cfg) now' a sleeps self2))"

text \<open>\<open>detect_high_risk\<close>: a keyword is a substring of the lower-cased description.\<close>

definition lower_char :: "char \<Rightarrow> char" where
  "lower_char c =
     (case map_of (zip ''ABCDEFGHIJKLMNOPQRSTUVWXYZ'' ''abcdefghijklmnopqrstuvwxyz'') c of
        None \<Rightarrow> c
      | Some l \<Rightarrow> l)"

definition lower :: "string \<Rightarrow> string" where
  "lower s = map lower_char s"

fun starts_with :: "string \<Rightarrow> string \<Rightarrow> bool" where
  "starts_with [] s = True"
| "starts_with (k # ks) [] = False"
| "starts_with (k # ks) (c # cs) = (k = c \<and> starts_with ks cs)"

fun contains :: "string \<Rightarrow> string \<Rightarrow> bool" where
  "contains kw [] = (kw = [])"
| "contains kw (c # cs) = (starts_with kw (c # cs) \<or> contains kw cs)"

definition high_risk_keywords :: "string list" where
  "high_risk_keywords =
     [''delete'', ''drop'', ''truncate'', ''rm -rf'', ''production'',
      ''deploy'', ''migrate'', ''rollback'', ''credentials'', ''secret'',
      ''payment'', ''billing'', ''financial'', ''admin'', ''sudo'']"

definition detect_high_risk :: "string \<Rightarrow> bool" where
  "detect_high_risk task_description =
     list_ex (\<lambda>kw. contains kw (lower task_description)) high_risk_keywords"

section \<open>The engine loop (chicken\_hawk.py)\<close>

text \<open>
  The methods and attributes that class \<open>StateManager\<close> defines. A call of any other
  name on a state manager raises \<open>AttributeError\<close>.
\<close>

definition StateManager_attributes :: "string list" where
  "StateManager_attributes =
     [''state_path'', ''state'', ''__init__'', ''_load_or_create'', ''_load'', ''_save'',
      ''initialize_from_prd'', ''get_next_task'', ''get_task'', ''mark_complete'',
      ''mark_failed'', ''log_retry'', ''is_complete'', ''get_progress_percentage'',
      ''get_current_task_path'', ''get_summary'']"

text \<open>\<open>self.state.mark_skipped(task.id)\<close>, line 173: the attribute is looked up first.\<close>

definition call_mark_skipped :: "string \<Rightarrow> StateManager \<Rightarrow> error + StateManager" where
  "call_mark_skipped tid self =
     (if ''mark_skipped'' \<in> set StateManager_attributes then Inr self
      else Inl (AttributeError ''mark_skipped''))"

text \<open>
  One round of the \<open>while\<close> loop of \<open>run\<close>, as far as the state manager sees it. The
  status that the awaited checkpoint returns is \<open>hitl\<close> of the task; steps 1 to 4 of the
  round (distillation, effort, gates, scheduled check-in) are \<open>rest\<close>. A round ends
  the loop (\<open>break\<close>), goes on to the next round, or raises.
\<close>

datatype round = Break StateManager | Next_round StateManager | Raised error StateManager

definition run_round ::
  "string \<Rightarrow> (TaskState \<Rightarrow> HITLStatus) \<Rightarrow> (nat \<Rightarrow> StateManager \<Rightarrow> StateManager)
     \<Rightarrow> StateManager \<Rightarrow> round" where
  "run_round now hitl rest self =
     (case get_next_task now self of
        (None, self1) \<Rightarrow> Break self1
      | (Some i, self1) \<Rightarrow>
          (let task = tasks (state self1) ! i in
           if detect_high_risk (title task) then
             (let st = hitl task in
              if st = REJECTED then
                (case call_mark_skipped (id_task task) self1 of
                   Inl e \<Rightarrow> Raised e self1
                 | Inr self2 \<Rightarrow> Next_round self2)
              else if st = TIMEOUT then Break self1
              else Next_round (rest i self1))
           else Next_round (rest i self1)))"

section \<open>Example inputs\<close>

text \<open>A plan of two tasks: the first is finished after two retries, the second waits.\<close>

definition example_manager :: StateManager where
  "example_manager =
     \<lparr>state =
        \<lparr>prd_file = ''specs/prd.md'', version = ''1.0'',
         tasks = [(TaskState_init ''task-001'' ''Parse the plan'')
                    \<lparr>status := ''complete'', retry_count := 2\<rparr>,
                  TaskState_init ''task-002'' ''Delete old logs''],
         created_at = ''2026-01-01T00:00:00+00:00'',
         updated_at = ''2026-01-01T00:00:00+00:00''\<rparr>,
      store = Missing\<rparr>"

text \<open>
  An environment in which every tool runs: pytest and ruff succeed with 85 percent
  coverage, the validator returns the given score and token count, the charter check
  returns the given verdict.
\<close>

definition example_env :: "rat \<Rightarrow> int \<Rightarrow> bool \<Rightarrow> gate_env" where
  "example_env score toks safe =
     \<lparr>pytest = PytestRan 0 (Some 85),
      ruff = RuffRan 0,
      validate_artifact =
        Some (\<lambda>p. \<lparr>alignment_score = Some score, tokens_used_result = Some toks\<rparr>),
      check_charter_safe =
        Some (\<lambda>p. \<lparr>charter_safe = Some safe, violations = Some (PList [])\<rparr>),
      fmt_percent = (\<lambda>x. str_int \<lfloor>100 * x\<rfloor> @ ''%''),
      fmt_3f = (\<lambda>x. str_int \<lfloor>x\<rfloor> @ ''.'' @ str_int (\<lfloor>1000 * x\<rfloor> mod 1000)),
      fmt_float = (\<lambda>x. str_int \<lfloor>x\<rfloor> @ ''.'' @ str_int (\<lfloor>1000 * x\<rfloor> mod 1000))\<rparr>"

text \<open>The same with a failing test run and a charter violation.\<close>

definition two_failures_env :: gate_env where
  "two_failures_env = (example_env 1 10 False)\<lparr>pytest := PytestRan 1 (Some 85)\<rparr>"

definition all_enabled :: Gates where
  "all_enabled = OracleGatekeeper_init\<lparr>perception := GateConfig_init True 0\<rparr>"

definition example_task :: TaskState where
  "example_task = (TaskState_init ''task-002'' ''Delete old logs'')\<lparr>output_path := Some ''out''\<rparr>"

definition example_hitl_config :: hitl_config where
  "example_hitl_config = \<lparr>HITL_TIMEOUT_MINUTES = 30, HITL_AUTO_APPROVE_LOW_RISK = True\<rparr>"

definition example_controller :: HITLController where
  "example_controller = HITLController_init ''http://localhost:8095'' True"

section \<open>Properties of TokenCounter\<close>

lemma add_max_tokens: "max_tokens (snd (add text self)) = max_tokens self"
  by (simp add: add_def Let_def)

lemma add_all_max_tokens: "max_tokens (add_all ts self) = max_tokens self"
  by (induction ts arbitrary: self) (simp_all add: add_max_tokens)

lemma floor_quarter: "\<lfloor>rat_of_nat n / 4\<rfloor> = int n div 4"
proof -
  have "rat_of_nat n / 4 = rat_of_int (int n) / rat_of_int 4"
    by simp
  then show ?thesis
    by (simp only: floor_divide_of_int_eq)
qed

text \<open>
  C3, as the claim states it, fails: \<open>add\<close> on the three characters \<open>abc\<close> leaves the
  count of a fresh counter at 0, while \<open>ceil(3/4)\<close> is 1.
\<close>

theorem add_ceil_counterexample:
  "fst (add ''abc'' (TokenCounter_init 128000)) \<noteq>
     current_tokens (TokenCounter_init 128000) + \<lceil>rat_of_nat (length ''abc'') / 4\<rceil>"
  by (simp add: add_def TokenCounter_init_def estimate_tokens_def ceiling_eq_iff)

text \<open>
  C3, amended: for every string \<open>text\<close>, \<open>add\<close> appends \<open>text\<close> to the context buffer
  and increments the current token count by exactly \<open>floor(len(text)/4)\<close>, returning
  the updated count; the maximum is untouched.
\<close>

theorem add_floor:
  "fst (add text self) = current_tokens self + \<lfloor>rat_of_nat (length text) / 4\<rfloor> \<and>
   current_tokens (snd (add text self)) = fst (add text self) \<and>
   context_buffer (snd (add text self)) = context_buffer self @ text \<and>
   max_tokens (snd (add text self)) = max_tokens self"
  by (simp add: add_def Let_def estimate_tokens_def floor_quarter)

theorem add_floor_witness:
  "fst (add ''abcdefghi'' (TokenCounter_init 128000)) = 2 \<and>
   context_buffer (snd (add ''abcdefghi'' (TokenCounter_init 128000))) = ''abcdefghi''"
  using add_floor [of "''abcdefghi''" "TokenCounter_init 128000"]
  by (simp add: add_def estimate_tokens_def TokenCounter_init_def)

text \<open>
  C9, as the claim states it, fails for a negative maximum: with \<open>max_tokens = -4\<close> and
  eight characters added the count is 2, and the method returns 0, while \<open>2 / -4\<close>
  is \<open>-1/2\<close>.
\<close>

theorem usage_ratio_counterexample:
  "get_usage_ratio (add_all [''abcdefgh''] (TokenCounter_init (- 4))) = Inr 0 \<and>
   py_truediv (current_tokens (add_all [''abcdefgh''] (TokenCounter_init (- 4))))
     (max_tokens (add_all [''abcdefgh''] (TokenCounter_init (- 4)))) = Inr (- 1 / 2) \<and>
   get_usage_ratio (add_all [''abcdefgh''] (TokenCounter_init (- 4))) \<noteq>
     py_truediv (current_tokens (add_all [''abcdefgh''] (TokenCounter_init (- 4))))
       (max_tokens (add_all [''abcdefgh''] (TokenCounter_init (- 4))))"
  by (simp add: get_usage_ratio_def py_truediv_def add_def estimate_tokens_def
      TokenCounter_init_def)

text \<open>
  C9, amended: for every TokenCounter constructed with \<open>max_tokens\<close> equal to 0 or
  below, \<open>get_usage_ratio\<close> returns 0 regardless of how much text has been added, where
  the division itself would raise \<open>ZeroDivisionError\<close> at 0; for a positive
  \<open>max_tokens\<close> it returns the current token count divided by \<open>max_tokens\<close>. It
  raises for no counter.
\<close>

theorem usage_ratio_guard:
  "get_usage_ratio (add_all ts (TokenCounter_init m)) =
     (if m \<le> 0 then Inr 0
      else Inr (rat_of_int (current_tokens (add_all ts (TokenCounter_init m))) /
                rat_of_int m)) \<and>
   py_truediv (current_tokens (add_all ts (TokenCounter_init 0)))
     (max_tokens (add_all ts (TokenCounter_init 0))) = Inl ZeroDivisionError \<and>
   get_usage_ratio (add_all ts (TokenCounter_init 0)) = Inr 0 \<and>
   (\<forall>e. get_usage_ratio self \<noteq> Inl e)"
  by (simp add: get_usage_ratio_def py_truediv_def add_all_max_tokens TokenCounter_init_def)

theorem usage_ratio_guard_witness:
  "get_usage_ratio (add_all [''abcdefgh'', ''xyz''] (TokenCounter_init 0)) = Inr 0 \<and>
   py_truediv (current_tokens (add_all [''abcdefgh'', ''xyz''] (TokenCounter_init 0))) 0 =
     Inl ZeroDivisionError \<and>
   get_usage_ratio (add_all [''abcdefgh'', ''xyz''] (TokenCounter_init 8)) = Inr (1 / 4)"
  using usage_ratio_guard [of "[''abcdefgh'', ''xyz'']" 0]
        usage_ratio_guard [of "[''abcdefgh'', ''xyz'']" 8]
  by (simp add: py_truediv_def add_def estimate_tokens_def TokenCounter_init_def)

section \<open>Properties of StateManager\<close>

lemma from_dict_to_dict: "from_dict (to_dict t) = Inr t"
  by (simp add: from_dict_def to_dict_def dataclass_fields_def kwarg_def bind_err_def
      opt_str_def split: option.splits)

lemma load_tasks_to_dict: "load_tasks (map (\<lambda>t. PDict (to_dict t)) ts) = Inr ts"
  by (induction ts) (simp_all add: from_dict_to_dict bind_err_def)

lemma load_saved_document:
  "store self = Json (PDict (PRDState_to_dict st)) \<Longrightarrow> load self = Inr (self\<lparr>state := st\<rparr>)"
  by (simp add: load_def PRDState_to_dict_def dict_get_def load_tasks_to_dict bind_err_def)

lemma save_store: "store (save now self) = Json (PDict (PRDState_to_dict (state (save now self))))"
  by (simp add: save_def Let_def)

lemma save_tasks: "tasks (state (save now self)) = tasks (state self)"
  by (simp add: save_def Let_def)

text \<open>
  C7: a work plan saved by one state manager and reloaded from the same store, by a
  new state manager or by \<open>_load\<close> of any other, gives the same ordered task list,
  hence the same ids, statuses and retry counts in the same order; loading a saved
  store never fails.
\<close>

theorem save_load_roundtrip:
  assumes "store other = store (save now self)"
  shows "\<exists>loaded created.
           load other = Inr loaded \<and>
           StateManager_init now' (store (save now self)) = Inr created \<and>
           state loaded = state (save now self) \<and>
           state created = state (save now self) \<and>
           tasks (state created) = tasks (state self) \<and>
           map id_task (tasks (state created)) = map id_task (tasks (state self)) \<and>
           map status (tasks (state created)) = map status (tasks (state self)) \<and>
           map retry_count (tasks (state created)) = map retry_count (tasks (state self))"
proof -
  let ?doc = "Json (PDict (PRDState_to_dict (state (save now self))))"
  let ?unloaded = "\<lparr>state = \<lparr>prd_file = ''specs/prd.md'', version = ''1.0'', tasks = [],
                               created_at = now', updated_at = now'\<rparr>,
                     store = store (save now self)\<rparr>"
  have "store other = ?doc"
    using assms by (simp add: save_store)
  then have l: "load other = Inr (other\<lparr>state := state (save now self)\<rparr>)"
    by (rule load_saved_document)
  have "store ?unloaded = ?doc"
    by (simp add: save_store)
  then have "load ?unloaded = Inr (?unloaded\<lparr>state := state (save now self)\<rparr>)"
    by (rule load_saved_document)
  moreover have "store (save now self) \<noteq> Missing"
    by (simp add: save_store)
  ultimately have c: "StateManager_init now' (store (save now self)) =
      Inr (?unloaded\<lparr>state := state (save now self)\<rparr>)"
    by (simp add: StateManager_init_def Let_def)
  show ?thesis
    unfolding l c by (simp add: save_tasks)
qed

theorem save_load_roundtrip_witness:
  "\<exists>created.
     StateManager_init ''2026-01-03'' (store (save ''2026-01-02'' example_manager)) =
       Inr created \<and>
     map id_task (tasks (state created)) = [''task-001'', ''task-002''] \<and>
     map status (tasks (state created)) = [''complete'', ''pending''] \<and>
     map retry_count (tasks (state created)) = [2, 0]"
proof -
  let ?saved = "save ''2026-01-02'' example_manager"
  have h: "store ?saved = store ?saved"
    by simp
  from save_load_roundtrip [OF h, of "''2026-01-03''"] obtain created
    where l: "StateManager_init ''2026-01-03'' (store ?saved) = Inr created"
      and t: "tasks (state created) = tasks (state example_manager)"
    by auto
  have "map id_task (tasks (state created)) = [''task-001'', ''task-002''] \<and>
        map status (tasks (state created)) = [''complete'', ''pending''] \<and>
        map retry_count (tasks (state created)) = [2, 0]"
    by (simp add: t example_manager_def TaskState_init_def)
  with l show ?thesis
    by (rule_tac x = created in exI) (rule conjI)
qed

lemma find_first_Some:
  "find_first P xs = Some i \<Longrightarrow> i < length xs \<and> P (xs ! i)"
proof (induction xs arbitrary: i)
  case Nil
  then show ?case by simp
next
  case (Cons x xs)
  show ?case
  proof (cases "P x")
    case True
    with Cons.prems show ?thesis by simp
  next
    case False
    with Cons.prems obtain j where j: "find_first P xs = Some j" "i = Suc j"
      by (auto split: option.splits)
    with Cons.IH [of j] show ?thesis by simp
  qed
qed

lemma find_first_None: "find_first P xs = None \<longleftrightarrow> (\<forall>x \<in> set xs. \<not> P x)"
  by (induction xs) (auto split: option.splits)

lemma tasks_save_set_task:
  "tasks (state (save now (set_task i t self))) = (tasks (state self))[i := t]"
  by (simp add: save_def set_task_def Let_def)

text \<open>
  C10: \<open>log_retry\<close> has no guard on the status. On a task whose status is \<open>complete\<close>
  or \<open>failed\<close> it still adds one to the retry count, records the reason and sets the
  status to \<open>pending\<close>; the change is written to the store, the plan is no longer
  complete and \<open>get_next_task\<close> hands out a task again.
\<close>

theorem log_retry_revives_terminal:
  assumes "get_task tid self = Some i"
    and "status (tasks (state self) ! i) \<in> {''complete'', ''failed''}"
  shows "retry_count (tasks (state (log_retry now tid rsn self)) ! i) =
           retry_count (tasks (state self) ! i) + 1 \<and>
         last_failure (tasks (state (log_retry now tid rsn self)) ! i) = rsn \<and>
         status (tasks (state (log_retry now tid rsn self)) ! i) = ''pending'' \<and>
         load (log_retry now tid rsn self) = Inr (log_retry now tid rsn self) \<and>
         \<not> is_complete (log_retry now tid rsn self) \<and>
         fst (get_next_task now' (log_retry now tid rsn self)) \<noteq> None"
proof -
  let ?ts = "tasks (state self)"
  let ?t = "(?ts ! i)\<lparr>retry_count := retry_count (?ts ! i) + 1, last_failure := rsn,
                        status := ''pending''\<rparr>"
  let ?self' = "log_retry now tid rsn self"
  have i: "i < length ?ts"
    using assms(1) find_first_Some [of _ ?ts i] by (simp add: get_task_def)
  have eq: "?self' = save now (set_task i ?t self)"
    using assms(1) by (simp add: log_retry_def Let_def)
  have ts': "tasks (state ?self') = ?ts[i := ?t]"
    by (simp add: eq tasks_save_set_task)
  have at: "tasks (state ?self') ! i = ?t"
    using i by (simp add: ts')
  have mem: "?t \<in> set (tasks (state ?self'))"
    using i by (simp add: ts' set_update_memI)
  have ne: "tasks (state ?self') \<noteq> []"
    using i by (auto simp: ts')
  have "status ?t \<notin> {''complete'', ''failed''}"
    by simp
  with mem have "\<exists>t \<in> set (tasks (state ?self')). status t \<notin> {''complete'', ''failed''}"
    by (rule_tac x = ?t in bexI)
  then have "\<not> list_all (\<lambda>t. status t \<in> {''complete'', ''failed''}) (tasks (state ?self'))"
    by (simp add: list_all_iff)
  then have nc: "\<not> is_complete ?self'"
    using ne by (simp add: is_complete_def)
  have "status ?t = ''pending''"
    by simp
  with mem have "\<exists>t \<in> set (tasks (state ?self')). status t = ''pending''"
    by (rule_tac x = ?t in bexI)
  then have "find_first (\<lambda>t. status t = ''pending'') (tasks (state ?self')) \<noteq> None"
    by (simp add: find_first_None)
  then have nx: "fst (get_next_task now' ?self') \<noteq> None"
    by (auto simp: get_next_task_def Let_def split: option.splits)
  have "store ?self' = Json (PDict (PRDState_to_dict (state ?self')))"
    by (simp add: eq save_store)
  then have "load ?self' = Inr (?self'\<lparr>state := state ?self'\<rparr>)"
    by (rule load_saved_document)
  then have ld: "load ?self' = Inr ?self'"
    by simp
  show ?thesis
    using at nc nx ld by simp
qed

theorem log_retry_revives_terminal_witness:
  "get_task ''task-001'' example_manager = Some 0 \<and>
   status (tasks (state example_manager) ! 0) = ''complete'' \<and>
   retry_count (tasks (state (log_retry ''2026-01-02'' ''task-001'' (Some ''late'') example_manager)) ! 0) = 3 \<and>
   status (tasks (state (log_retry ''2026-01-02'' ''task-001'' (Some ''late'') example_manager)) ! 0) =
     ''pending'' \<and>
   \<not> is_complete (log_retry ''2026-01-02'' ''task-001'' (Some ''late'') example_manager)"
proof -
  have g: "get_task ''task-001'' example_manager = Some 0"
    by (simp add: get_task_def example_manager_def TaskState_init_def)
  have s: "status (tasks (state example_manager) ! 0) \<in> {''complete'', ''failed''}"
    by (simp add: example_manager_def TaskState_init_def)
  have r: "retry_count (tasks (state example_manager) ! 0) = 2"
    by (simp add: example_manager_def TaskState_init_def)
  have c: "status (tasks (state example_manager) ! 0) = ''complete''"
    by (simp add: example_manager_def TaskState_init_def)
  show ?thesis
    using log_retry_revives_terminal [OF g s, of "''2026-01-02''" "Some ''late''"] g r c
    by simp
qed

section \<open>Properties of the gates\<close>

lemma map_of_dict_set: "map_of (dict_set k v d) k' = (if k' = k then Some v else map_of d k')"
  by (induction d) auto

lemma store_gate_fields:
  "results (store_gate n g l) = dict_set n (gate_passed g) (results l)"
  "details_l (store_gate n g l) = dict_set n g (details_l l)"
  "all_passed (store_gate n g l) = all_passed l"
  "failure_reason_l (store_gate n g l) = failure_reason_l l"
  "total_tokens (store_gate n g l) = total_tokens l"
  by (simp_all add: store_gate_def Let_def)

lemma count_tokens_fields:
  "results (count_tokens g l) = results l"
  "details_l (count_tokens g l) = details_l l"
  "all_passed (count_tokens g l) = all_passed l"
  "failure_reason_l (count_tokens g l) = failure_reason_l l"
  "total_tokens (count_tokens g l) = total_tokens l + gate_tokens g"
  by (simp_all add: count_tokens_def)

lemma note_failure_fields:
  "results (note_failure g l) = results l"
  "details_l (note_failure g l) = details_l l"
  "all_passed (note_failure g l) = (all_passed l \<and> gate_passed g)"
  "failure_reason_l (note_failure g l) =
     (if gate_passed g then failure_reason_l l else py_or (failure_reason_l l) (gate_reason g))"
  "total_tokens (note_failure g l) = total_tokens l"
  by (simp_all add: note_failure_def Let_def)

lemmas locals_fields = store_gate_fields count_tokens_fields note_failure_fields

lemmas block_defs =
  block_technical_def block_virtue_def block_ethics_def block_judge_def block_strategy_def
  block_perception_def block_effort_def

lemma judge_facts:
  "gate_passed (gate_judge t)" "gate_tokens (gate_judge t) = 0" "gate_reason (gate_judge t) = None"
  by (simp_all add: gate_judge_def gate_passed_def gate_tokens_def gate_reason_def dict_get_def)

lemma strategy_facts:
  "gate_passed (gate_strategy t)" "gate_tokens (gate_strategy t) = 0"
  "gate_reason (gate_strategy t) = None"
  by (simp_all add: gate_strategy_def gate_passed_def gate_tokens_def gate_reason_def dict_get_def)

lemma perception_facts:
  "gate_passed (gate_perception t)" "gate_tokens (gate_perception t) = 0"
  "gate_reason (gate_perception t) = None"
  by (simp_all add: gate_perception_def gate_passed_def gate_tokens_def gate_reason_def
      dict_get_def)

lemma effort_passed: "gate_passed (gate_effort t n) \<longleftrightarrow> n \<le> 50000"
  by (simp add: gate_effort_def gate_passed_def dict_get_def Let_def)

lemma effort_reason:
  "gate_reason (gate_effort t n) =
     (if n \<le> 50000 then None
      else Some (''Token budget exceeded: '' @ str_int n @ ''/50000''))"
  by (simp add: gate_effort_def gate_reason_def dict_get_def Let_def str_int_def)

lemma technical_reason:
  "\<not> gate_passed (gate_technical gates env t) \<Longrightarrow>
     \<exists>s. gate_reason (gate_technical gates env t) = Some s \<and> s \<noteq> []"
  by (simp add: gate_technical_def gate_passed_def gate_reason_def dict_get_def Let_def)

lemma virtue_reason:
  "\<not> gate_passed (gate_virtue gates env t) \<Longrightarrow>
     \<exists>s. gate_reason (gate_virtue gates env t) = Some s \<and> s \<noteq> []"
proof (cases "validate_artifact env")
  case None
  then show "\<not> gate_passed (gate_virtue gates env t) \<Longrightarrow> ?thesis"
    by (simp add: gate_virtue_def gate_passed_def dict_get_def)
next
  case (Some validate)
  then show "\<not> gate_passed (gate_virtue gates env t) \<Longrightarrow> ?thesis"
    by (simp add: gate_virtue_def gate_passed_def gate_reason_def dict_get_def Let_def)
qed

lemma ethics_reason:
  "\<not> gate_passed (gate_ethics gates env t) \<Longrightarrow>
     \<exists>s. gate_reason (gate_ethics gates env t) = Some s \<and> s \<noteq> []"
proof (cases "check_charter_safe env")
  case None
  then show "\<not> gate_passed (gate_ethics gates env t) \<Longrightarrow> ?thesis"
    by (simp add: gate_ethics_def gate_passed_def dict_get_def)
next
  case (Some check)
  then show "\<not> gate_passed (gate_ethics gates env t) \<Longrightarrow> ?thesis"
    by (simp add: gate_ethics_def gate_passed_def gate_reason_def dict_get_def Let_def)
qed

lemma block_technical_fields:
  "all_passed (block_technical gates env t l) =
     (all_passed l \<and> (enabled (technical gates) \<longrightarrow> gate_passed (gate_technical gates env t)))"
  "total_tokens (block_technical gates env t l) = total_tokens l"
  "failure_reason_l (block_technical gates env t l) =
     (if enabled (technical gates) \<and> \<not> gate_passed (gate_technical gates env t)
      then py_or (failure_reason_l l) (gate_reason (gate_technical gates env t))
      else failure_reason_l l)"
  "results (block_technical gates env t l) =
     (if enabled (technical gates)
      then dict_set ''technical'' (gate_passed (gate_technical gates env t)) (results l)
      else results l)"
  "details_l (block_technical gates env t l) =
     (if enabled (technical gates)
      then dict_set ''technical'' (gate_technical gates env t) (details_l l)
      else details_l l)"
  by (simp_all add: block_technical_def Let_def locals_fields)

lemma block_virtue_fields:
  "all_passed (block_virtue gates env t l) =
     (all_passed l \<and> (enabled (virtue gates) \<longrightarrow> gate_passed (gate_virtue gates env t)))"
  "total_tokens (block_virtue gates env t l) =
     total_tokens l + (if enabled (virtue gates) then gate_tokens (gate_virtue gates env t) else 0)"
  "failure_reason_l (block_virtue gates env t l) =
     (if enabled (virtue gates) \<and> \<not> gate_passed (gate_virtue gates env t)
      then py_or (failure_reason_l l) (gate_reason (gate_virtue gates env t))
      else failure_reason_l l)"
  "results (block_virtue gates env t l) =
     (if enabled (virtue gates)
      then dict_set ''virtue'' (gate_passed (gate_virtue gates env t)) (results l)
      else results l)"
  "details_l (block_virtue gates env t l) =
     (if enabled (virtue gates)
      then dict_set ''virtue'' (gate_virtue gates env t) (details_l l)
      else details_l l)"
  by (simp_all add: block_virtue_def Let_def locals_fields)

lemma block_ethics_fields:
  "all_passed (block_ethics gates env t l) =
     (all_passed l \<and> (enabled (ethics gates) \<longrightarrow> gate_passed (gate_ethics gates env t)))"
  "total_tokens (block_ethics gates env t l) = total_tokens l"
  "failure_reason_l (block_ethics gates env t l) =
     (if enabled (ethics gates) \<and> \<not> gate_passed (gate_ethics gates env t)
      then py_or (failure_reason_l l) (gate_reason (gate_ethics gates env t))
      else failure_reason_l l)"
  "results (block_ethics gates env t l) =
     (if enabled (ethics gates)
      then dict_set ''ethics'' (gate_passed (gate_ethics gates env t)) (results l)
      else results l)"
  "details_l (block_ethics gates env t l) =
     (if enabled (ethics gates)
      then dict_set ''ethics'' (gate_ethics gates env t) (details_l l)
      else details_l l)"
  by (simp_all add: block_ethics_def Let_def locals_fields)

lemma block_judge_fields:
  "all_passed (block_judge gates t l) =
     (all_passed l \<and> (enabled (judge gates) \<longrightarrow> gate_passed (gate_judge t)))"
  "total_tokens (block_judge gates t l) =
     total_tokens l + (if enabled (judge gates) then gate_tokens (gate_judge t) else 0)"
  "failure_reason_l (block_judge gates t l) =
     (if enabled (judge gates) \<and> \<not> gate_passed (gate_judge t)
      then py_or (failure_reason_l l) (gate_reason (gate_judge t))
      else failure_reason_l l)"
  "results (block_judge gates t l) =
     (if enabled (judge gates)
      then dict_set ''judge'' (gate_passed (gate_judge t)) (results l)
      else results l)"
  "details_l (block_judge gates t l) =
     (if enabled (judge gates)
      then dict_set ''judge'' (gate_judge t) (details_l l)
      else details_l l)"
  by (simp_all add: block_judge_def Let_def locals_fields)

lemma block_strategy_fields:
  "all_passed (block_strategy gates t l) =
     (all_passed l \<and> (enabled (strategy gates) \<longrightarrow> gate_passed (gate_strategy t)))"
  "total_tokens (block_strategy gates t l) = total_tokens l"
  "failure_reason_l (block_strategy gates t l) =
     (if enabled (strategy gates) \<and> \<not> gate_passed (gate_strategy t)
      then py_or (failure_reason_l l) (gate_reason (gate_strategy t))
      else failure_reason_l l)"
  "results (block_strategy gates t l) =
     (if enabled (strategy gates)
      then dict_set ''strategy'' (gate_passed (gate_strategy t)) (results l)
      else results l)"
  "details_l (block_strategy gates t l) =
     (if enabled (strategy gates)
      then dict_set ''strategy'' (gate_strategy t) (details_l l)
      else details_l l)"
  by (simp_all add: block_strategy_def Let_def locals_fields)

lemma block_perception_fields:
  "all_passed (block_perception gates t l) =
     (all_passed l \<and> (enabled (perception gates) \<longrightarrow> gate_passed (gate_perception t)))"
  "total_tokens (block_perception gates t l) =
     total_tokens l + (if enabled (perception gates) then gate_tokens (gate_perception t) else 0)"
  "failure_reason_l (block_perception gates t l) =
     (if enabled (perception gates) \<and> \<not> gate_passed (gate_perception t)
      then py_or (failure_reason_l l) (gate_reason (gate_perception t))
      else failure_reason_l l)"
  "results (block_perception gates t l) =
     dict_set ''perception''
       (if enabled (perception gates) then gate_passed (gate_perception t) else True) (results l)"
  "details_l (block_perception gates t l) =
     (if enabled (perception gates)
      then dict_set ''perception'' (gate_perception t) (details_l l)
      else details_l l)"
  by (simp_all add: block_perception_def Let_def locals_fields)

lemma block_effort_fields:
  "all_passed (block_effort gates t l) =
     (all_passed l \<and>
      (enabled (effort gates) \<longrightarrow> gate_passed (gate_effort t (total_tokens l))))"
  "total_tokens (block_effort gates t l) = total_tokens l"
  "failure_reason_l (block_effort gates t l) =
     (if enabled (effort gates) \<and> \<not> gate_passed (gate_effort t (total_tokens l))
      then py_or (failure_reason_l l) (gate_reason (gate_effort t (total_tokens l)))
      else failure_reason_l l)"
  "results (block_effort gates t l) =
     (if enabled (effort gates)
      then dict_set ''effort'' (gate_passed (gate_effort t (total_tokens l))) (results l)
      else results l)"
  "details_l (block_effort gates t l) =
     (if enabled (effort gates)
      then dict_set ''effort'' (gate_effort t (total_tokens l)) (details_l l)
      else details_l l)"
  by (simp_all add: block_effort_def Let_def locals_fields)

lemmas block_fields =
  block_technical_fields block_virtue_fields block_ethics_fields block_judge_fields
  block_strategy_fields block_perception_fields block_effort_fields

lemma map_of_if: "map_of (if b then x else y) k = (if b then map_of x k else map_of y k)"
  by simp

lemma total_tokens_run_gates:
  "total_tokens (run_gates gates env t) =
     (if enabled (virtue gates) then gate_tokens (gate_virtue gates env t) else 0) +
     (if enabled (judge gates) then gate_tokens (gate_judge t) else 0) +
     (if enabled (perception gates) then gate_tokens (gate_perception t) else 0)"
  by (simp add: run_gates_def block_fields(2,7,12,17,22,27,32) verify_init_def)

lemma results_lookup:
  "map_of (results (run_gates gates env t)) ''technical'' =
     (if enabled (technical gates) then Some (gate_passed (gate_technical gates env t)) else None)"
  "map_of (results (run_gates gates env t)) ''virtue'' =
     (if enabled (virtue gates) then Some (gate_passed (gate_virtue gates env t)) else None)"
  "map_of (results (run_gates gates env t)) ''ethics'' =
     (if enabled (ethics gates) then Some (gate_passed (gate_ethics gates env t)) else None)"
  "map_of (results (run_gates gates env t)) ''judge'' =
     (if enabled (judge gates) then Some (gate_passed (gate_judge t)) else None)"
  "map_of (results (run_gates gates env t)) ''strategy'' =
     (if enabled (strategy gates) then Some (gate_passed (gate_strategy t)) else None)"
  "map_of (results (run_gates gates env t)) ''perception'' =
     (if enabled (perception gates) then Some (gate_passed (gate_perception t)) else Some True)"
  "map_of (results (run_gates gates env t)) ''effort'' =
     (if enabled (effort gates)
      then Some (gate_passed (gate_effort t (total_tokens (run_gates gates env t)))) else None)"
  unfolding total_tokens_run_gates
  by (simp_all only: run_gates_def block_fields map_of_if map_of_dict_set verify_init_def)
     (simp_all add: verify_init_def)
lemma all_passed_run_gates:
  "all_passed (run_gates gates env t) \<longleftrightarrow>
     (enabled (technical gates) \<longrightarrow> gate_passed (gate_technical gates env t)) \<and>
     (enabled (virtue gates) \<longrightarrow> gate_passed (gate_virtue gates env t)) \<and>
     (enabled (ethics gates) \<longrightarrow> gate_passed (gate_ethics gates env t)) \<and>
     (enabled (judge gates) \<longrightarrow> gate_passed (gate_judge t)) \<and>
     (enabled (strategy gates) \<longrightarrow> gate_passed (gate_strategy t)) \<and>
     (enabled (perception gates) \<longrightarrow> gate_passed (gate_perception t)) \<and>
     (enabled (effort gates) \<longrightarrow>
        gate_passed (gate_effort t (total_tokens (run_gates gates env t))))"
  unfolding total_tokens_run_gates
  by (simp add: run_gates_def block_fields verify_init_def)

lemma details_lookup:
  "map_of (details_l (run_gates gates env t)) ''technical'' =
     (if enabled (technical gates) then Some (gate_technical gates env t) else None)"
  "map_of (details_l (run_gates gates env t)) ''virtue'' =
     (if enabled (virtue gates) then Some (gate_virtue gates env t) else None)"
  "map_of (details_l (run_gates gates env t)) ''ethics'' =
     (if enabled (ethics gates) then Some (gate_ethics gates env t) else None)"
  "map_of (details_l (run_gates gates env t)) ''judge'' =
     (if enabled (judge gates) then Some (gate_judge t) else None)"
  "map_of (details_l (run_gates gates env t)) ''strategy'' =
     (if enabled (strategy gates) then Some (gate_strategy t) else None)"
  "map_of (details_l (run_gates gates env t)) ''perception'' =
     (if enabled (perception gates) then Some (gate_perception t) else None)"
  "map_of (details_l (run_gates gates env t)) ''effort'' =
     (if enabled (effort gates)
      then Some (gate_effort t (total_tokens (run_gates gates env t))) else None)"
  unfolding total_tokens_run_gates
  by (simp_all only: run_gates_def block_fields map_of_if map_of_dict_set verify_init_def)
     (simp_all add: verify_init_def)

lemma results_all_enabled:
  assumes "enabled (technical gates)" "enabled (virtue gates)" "enabled (ethics gates)"
    "enabled (judge gates)" "enabled (strategy gates)" "enabled (perception gates)"
    "enabled (effort gates)"
  shows "results (run_gates gates env t) =
     [(''technical'', gate_passed (gate_technical gates env t)),
      (''virtue'', gate_passed (gate_virtue gates env t)),
      (''ethics'', gate_passed (gate_ethics gates env t)),
      (''judge'', gate_passed (gate_judge t)),
      (''strategy'', gate_passed (gate_strategy t)),
      (''perception'', gate_passed (gate_perception t)),
      (''effort'', gate_passed (gate_effort t (total_tokens (run_gates gates env t))))]"
  unfolding total_tokens_run_gates
  using assms by (simp add: run_gates_def block_fields verify_init_def)

lemma py_or_first:
  assumes "f \<Longrightarrow> \<exists>s. r = Some s \<and> s \<noteq> []"
    and "x = None \<or> (\<exists>s. x = Some s \<and> s \<noteq> [])"
  shows "(if f then py_or x r else x) = (if x \<noteq> None then x else if f then r else None)"
    and "(if f then py_or x r else x) = None \<or>
         (\<exists>s. (if f then py_or x r else x) = Some s \<and> s \<noteq> [])"
  using assms by (auto simp: py_or_def)

lemma failure_reason_run_gates:
  "failure_reason_l (run_gates gates env t) =
     (if enabled (technical gates) \<and> \<not> gate_passed (gate_technical gates env t)
      then gate_reason (gate_technical gates env t)
      else if enabled (virtue gates) \<and> \<not> gate_passed (gate_virtue gates env t)
      then gate_reason (gate_virtue gates env t)
      else if enabled (ethics gates) \<and> \<not> gate_passed (gate_ethics gates env t)
      then gate_reason (gate_ethics gates env t)
      else if enabled (judge gates) \<and> \<not> gate_passed (gate_judge t)
      then gate_reason (gate_judge t)
      else if enabled (strategy gates) \<and> \<not> gate_passed (gate_strategy t)
      then gate_reason (gate_strategy t)
      else if enabled (perception gates) \<and> \<not> gate_passed (gate_perception t)
      then gate_reason (gate_perception t)
      else if enabled (effort gates) \<and>
              \<not> gate_passed (gate_effort t (total_tokens (run_gates gates env t)))
      then gate_reason (gate_effort t (total_tokens (run_gates gates env t)))
      else None)"
proof -
  define c1 where "c1 \<longleftrightarrow> enabled (technical gates) \<and> \<not> gate_passed (gate_technical gates env t)"
  define c2 where "c2 \<longleftrightarrow> enabled (virtue gates) \<and> \<not> gate_passed (gate_virtue gates env t)"
  define c3 where "c3 \<longleftrightarrow> enabled (ethics gates) \<and> \<not> gate_passed (gate_ethics gates env t)"
  define c7 where "c7 \<longleftrightarrow> enabled (effort gates) \<and>
    \<not> gate_passed (gate_effort t (total_tokens (run_gates gates env t)))"
  define r1 where "r1 = gate_reason (gate_technical gates env t)"
  define r2 where "r2 = gate_reason (gate_virtue gates env t)"
  define r3 where "r3 = gate_reason (gate_ethics gates env t)"
  define r7 where "r7 = gate_reason (gate_effort t (total_tokens (run_gates gates env t)))"
  define f1 where "f1 = (if c1 then py_or None r1 else None)"
  define f2 where "f2 = (if c2 then py_or f1 r2 else f1)"
  define f3 where "f3 = (if c3 then py_or f2 r3 else f2)"
  define f7 where "f7 = (if c7 then py_or f3 r7 else f3)"
  have t1: "c1 \<Longrightarrow> \<exists>s. r1 = Some s \<and> s \<noteq> []"
    unfolding c1_def r1_def using technical_reason by blast
  have t2: "c2 \<Longrightarrow> \<exists>s. r2 = Some s \<and> s \<noteq> []"
    unfolding c2_def r2_def using virtue_reason by blast
  have t3: "c3 \<Longrightarrow> \<exists>s. r3 = Some s \<and> s \<noteq> []"
    unfolding c3_def r3_def using ethics_reason by blast
  have t7: "c7 \<Longrightarrow> \<exists>s. r7 = Some s \<and> s \<noteq> []"
    unfolding c7_def r7_def by (simp add: effort_passed effort_reason)
  have e1: "f1 = (if c1 then r1 else None)" and g1: "f1 = None \<or> (\<exists>s. f1 = Some s \<and> s \<noteq> [])"
    unfolding f1_def using py_or_first [of c1 r1 None] t1 by simp_all
  have e2: "f2 = (if f1 \<noteq> None then f1 else if c2 then r2 else None)"
    and g2: "f2 = None \<or> (\<exists>s. f2 = Some s \<and> s \<noteq> [])"
    unfolding f2_def using py_or_first [of c2 r2 f1] t2 g1 by simp_all
  have e3: "f3 = (if f2 \<noteq> None then f2 else if c3 then r3 else None)"
    and g3: "f3 = None \<or> (\<exists>s. f3 = Some s \<and> s \<noteq> [])"
    unfolding f3_def using py_or_first [of c3 r3 f2] t3 g2 by simp_all
  have e7: "f7 = (if f3 \<noteq> None then f3 else if c7 then r7 else None)"
    unfolding f7_def using py_or_first(1) [of c7 r7 f3] t7 g3 by simp
  have n1: "f1 \<noteq> None \<longleftrightarrow> c1"
    using e1 t1 by auto
  have n2: "f2 \<noteq> None \<longleftrightarrow> c1 \<or> c2"
    using e2 n1 t2 by auto
  have n3: "f3 \<noteq> None \<longleftrightarrow> c1 \<or> c2 \<or> c3"
    using e3 n2 t3 by auto
  have first: "f7 = (if c1 then r1 else if c2 then r2 else if c3 then r3
                     else if c7 then r7 else None)"
    using e1 e2 e3 e7 n1 n2 n3 by auto
  define l1 where "l1 = block_technical gates env t verify_init"
  define l2 where "l2 = block_virtue gates env t l1"
  define l3 where "l3 = block_ethics gates env t l2"
  define l4 where "l4 = block_judge gates t l3"
  define l5 where "l5 = block_strategy gates t l4"
  define l6 where "l6 = block_perception gates t l5"
  have run: "run_gates gates env t = block_effort gates t l6"
    by (simp add: run_gates_def l1_def l2_def l3_def l4_def l5_def l6_def)
  have tt: "total_tokens (run_gates gates env t) = total_tokens l6"
    by (simp add: run block_effort_fields(2))
  have F1: "failure_reason_l l1 = f1"
    unfolding l1_def f1_def c1_def r1_def
    by (simp add: block_technical_fields(3) verify_init_def)
  have F2: "failure_reason_l l2 = f2"
    unfolding l2_def f2_def c2_def r2_def
    by (simp add: block_virtue_fields(3) F1)
  have F3: "failure_reason_l l3 = f3"
    unfolding l3_def f3_def c3_def r3_def
    by (simp add: block_ethics_fields(3) F2)
  have F4: "failure_reason_l l4 = f3"
    unfolding l4_def by (simp add: block_judge_fields(3) judge_facts F3)
  have F5: "failure_reason_l l5 = f3"
    unfolding l5_def by (simp add: block_strategy_fields(3) strategy_facts F4)
  have F6: "failure_reason_l l6 = f3"
    unfolding l6_def by (simp add: block_perception_fields(3) perception_facts F5)
  have "failure_reason_l (run_gates gates env t) = f7"
    unfolding f7_def c7_def r7_def tt
    by (simp add: run block_effort_fields(3) F6)
  then show ?thesis
    unfolding first c1_def c2_def c3_def c7_def r1_def r2_def r3_def r7_def
    by (simp add: judge_facts strategy_facts perception_facts)
qed

lemma verify_all_fields:
  "passed (verify_all gates env t) = all_passed (run_gates gates env t)"
  "gate_status (verify_all gates env t) = results (run_gates gates env t)"
  "failure_reason (verify_all gates env t) = failure_reason_l (run_gates gates env t)"
  "tokens_used (verify_all gates env t) = total_tokens (run_gates gates env t)"
  "details (verify_all gates env t) = details_l (run_gates gates env t)"
  by (simp_all add: verify_all_def Let_def)

text \<open>
  C1: \<open>verify_all\<close> returns a result whose \<open>passed\<close> is true exactly when every
  enabled gate passed; a disabled Perception gate is recorded in \<open>gate_status\<close> as
  passed; and with all seven gates enabled and passing the result has \<open>passed = True\<close>
  and a \<open>gate_status\<close> of exactly seven true entries, in the order of the gates.
\<close>

theorem verify_all_passed_iff:
  "(passed (verify_all gates env t) \<longleftrightarrow>
      (enabled (technical gates) \<longrightarrow> gate_passed (gate_technical gates env t)) \<and>
      (enabled (virtue gates) \<longrightarrow> gate_passed (gate_virtue gates env t)) \<and>
      (enabled (ethics gates) \<longrightarrow> gate_passed (gate_ethics gates env t)) \<and>
      (enabled (judge gates) \<longrightarrow> gate_passed (gate_judge t)) \<and>
      (enabled (strategy gates) \<longrightarrow> gate_passed (gate_strategy t)) \<and>
      (enabled (perception gates) \<longrightarrow> gate_passed (gate_perception t)) \<and>
      (enabled (effort gates) \<longrightarrow>
         gate_passed (gate_effort t (tokens_used (verify_all gates env t))))) \<and>
   (\<not> enabled (perception gates) \<longrightarrow>
      map_of (gate_status (verify_all gates env t)) ''perception'' = Some True) \<and>
   (enabled (technical gates) \<and> enabled (virtue gates) \<and> enabled (ethics gates) \<and>
    enabled (judge gates) \<and> enabled (strategy gates) \<and> enabled (perception gates) \<and>
    enabled (effort gates) \<and>
    gate_passed (gate_technical gates env t) \<and> gate_passed (gate_virtue gates env t) \<and>
    gate_passed (gate_ethics gates env t) \<and> gate_passed (gate_judge t) \<and>
    gate_passed (gate_strategy t) \<and> gate_passed (gate_perception t) \<and>
    gate_passed (gate_effort t (tokens_used (verify_all gates env t))) \<longrightarrow>
      passed (verify_all gates env t) \<and>
      gate_status (verify_all gates env t) =
        [(''technical'', True), (''virtue'', True), (''ethics'', True), (''judge'', True),
         (''strategy'', True), (''perception'', True), (''effort'', True)])"
proof (intro conjI impI)
  show "passed (verify_all gates env t) \<longleftrightarrow>
      (enabled (technical gates) \<longrightarrow> gate_passed (gate_technical gates env t)) \<and>
      (enabled (virtue gates) \<longrightarrow> gate_passed (gate_virtue gates env t)) \<and>
      (enabled (ethics gates) \<longrightarrow> gate_passed (gate_ethics gates env t)) \<and>
      (enabled (judge gates) \<longrightarrow> gate_passed (gate_judge t)) \<and>
      (enabled (strategy gates) \<longrightarrow> gate_passed (gate_strategy t)) \<and>
      (enabled (perception gates) \<longrightarrow> gate_passed (gate_perception t)) \<and>
      (enabled (effort gates) \<longrightarrow>
         gate_passed (gate_effort t (tokens_used (verify_all gates env t))))"
    unfolding verify_all_fields by (rule all_passed_run_gates)
next
  assume "\<not> enabled (perception gates)"
  then show "map_of (gate_status (verify_all gates env t)) ''perception'' = Some True"
    unfolding verify_all_fields by (simp add: results_lookup(6))
next
  assume a: "enabled (technical gates) \<and> enabled (virtue gates) \<and> enabled (ethics gates) \<and>
    enabled (judge gates) \<and> enabled (strategy gates) \<and> enabled (perception gates) \<and>
    enabled (effort gates) \<and>
    gate_passed (gate_technical gates env t) \<and> gate_passed (gate_virtue gates env t) \<and>
    gate_passed (gate_ethics gates env t) \<and> gate_passed (gate_judge t) \<and>
    gate_passed (gate_strategy t) \<and> gate_passed (gate_perception t) \<and>
    gate_passed (gate_effort t (tokens_used (verify_all gates env t)))"
  then show "passed (verify_all gates env t)"
    unfolding verify_all_fields by (simp add: all_passed_run_gates)
  from a have "results (run_gates gates env t) =
     [(''technical'', gate_passed (gate_technical gates env t)),
      (''virtue'', gate_passed (gate_virtue gates env t)),
      (''ethics'', gate_passed (gate_ethics gates env t)),
      (''judge'', gate_passed (gate_judge t)),
      (''strategy'', gate_passed (gate_strategy t)),
      (''perception'', gate_passed (gate_perception t)),
      (''effort'', gate_passed (gate_effort t (total_tokens (run_gates gates env t))))]"
    by (intro results_all_enabled) simp_all
  with a show "gate_status (verify_all gates env t) =
        [(''technical'', True), (''virtue'', True), (''ethics'', True), (''judge'', True),
         (''strategy'', True), (''perception'', True), (''effort'', True)]"
    unfolding verify_all_fields by simp
qed

lemma example_gates_pass:
  "gate_passed (gate_technical all_enabled (example_env 1 10 True) example_task)"
  "gate_passed (gate_virtue all_enabled (example_env 1 10 True) example_task)"
  "gate_passed (gate_ethics all_enabled (example_env 1 10 True) example_task)"
  "gate_tokens (gate_virtue all_enabled (example_env 1 10 True) example_task) = 10"
  by (simp_all add: gate_technical_def gate_virtue_def gate_ethics_def gate_passed_def
      gate_tokens_def dict_get_def Let_def all_enabled_def OracleGatekeeper_init_def
      GateConfig_init_def example_env_def)

lemma all_enabled_enabled:
  "enabled (technical all_enabled)" "enabled (virtue all_enabled)"
  "enabled (ethics all_enabled)" "enabled (judge all_enabled)"
  "enabled (strategy all_enabled)" "enabled (perception all_enabled)"
  "enabled (effort all_enabled)"
  by (simp_all add: all_enabled_def OracleGatekeeper_init_def GateConfig_init_def)

theorem verify_all_passed_iff_witness:
  "passed (verify_all all_enabled (example_env 1 10 True) example_task) \<and>
   gate_status (verify_all all_enabled (example_env 1 10 True) example_task) =
     [(''technical'', True), (''virtue'', True), (''ethics'', True), (''judge'', True),
      (''strategy'', True), (''perception'', True), (''effort'', True)] \<and>
   length (filter snd (gate_status (verify_all all_enabled (example_env 1 10 True) example_task)))
     = 7"
proof -
  have "tokens_used (verify_all all_enabled (example_env 1 10 True) example_task) = 10"
    by (simp add: verify_all_fields total_tokens_run_gates all_enabled_enabled
        example_gates_pass judge_facts perception_facts)
  then have "gate_passed (gate_effort example_task
      (tokens_used (verify_all all_enabled (example_env 1 10 True) example_task)))"
    by (simp add: effort_passed)
  then show ?thesis
    using verify_all_passed_iff [of all_enabled "example_env 1 10 True" example_task]
    by (simp add: all_enabled_enabled example_gates_pass judge_facts strategy_facts
        perception_facts)
qed

text \<open>
  C5: the headline \<open>failure_reason\<close> is the reason of the first gate, in the order
  Technical, Virtue, Ethics, Judge, Strategy, Perception, Effort, that is enabled and
  fails, whatever later gates report; and the dictionary of every enabled gate, with
  its own reason, is kept under the gate's name in \<open>details\<close>.
\<close>

theorem failure_reason_first_failing_gate:
  "failure_reason (verify_all gates env t) =
     (if enabled (technical gates) \<and> \<not> gate_passed (gate_technical gates env t)
      then gate_reason (gate_technical gates env t)
      else if enabled (virtue gates) \<and> \<not> gate_passed (gate_virtue gates env t)
      then gate_reason (gate_virtue gates env t)
      else if enabled (ethics gates) \<and> \<not> gate_passed (gate_ethics gates env t)
      then gate_reason (gate_ethics gates env t)
      else if enabled (judge gates) \<and> \<not> gate_passed (gate_judge t)
      then gate_reason (gate_judge t)
      else if enabled (strategy gates) \<and> \<not> gate_passed (gate_strategy t)
      then gate_reason (gate_strategy t)
      else if enabled (perception gates) \<and> \<not> gate_passed (gate_perception t)
      then gate_reason (gate_perception t)
      else if enabled (effort gates) \<and>
              \<not> gate_passed (gate_effort t (tokens_used (verify_all gates env t)))
      then gate_reason (gate_effort t (tokens_used (verify_all gates env t)))
      else None) \<and>
   (enabled (technical gates) \<longrightarrow>
      map_of (details (verify_all gates env t)) ''technical'' =
        Some (gate_technical gates env t)) \<and>
   (enabled (virtue gates) \<longrightarrow>
      map_of (details (verify_all gates env t)) ''virtue'' = Some (gate_virtue gates env t)) \<and>
   (enabled (ethics gates) \<longrightarrow>
      map_of (details (verify_all gates env t)) ''ethics'' = Some (gate_ethics gates env t)) \<and>
   (enabled (judge gates) \<longrightarrow>
      map_of (details (verify_all gates env t)) ''judge'' = Some (gate_judge t)) \<and>
   (enabled (strategy gates) \<longrightarrow>
      map_of (details (verify_all gates env t)) ''strategy'' = Some (gate_strategy t)) \<and>
   (enabled (perception gates) \<longrightarrow>
      map_of (details (verify_all gates env t)) ''perception'' = Some (gate_perception t)) \<and>
   (enabled (effort gates) \<longrightarrow>
      map_of (details (verify_all gates env t)) ''effort'' =
        Some (gate_effort t (tokens_used (verify_all gates env t)))) \<and>
   (\<not> passed (verify_all gates env t) \<longrightarrow>
      (\<exists>s. failure_reason (verify_all gates env t) = Some s \<and> s \<noteq> []))"
proof -
  have nonempty: "\<not> passed (verify_all gates env t) \<longrightarrow>
      (\<exists>s. failure_reason (verify_all gates env t) = Some s \<and> s \<noteq> [])"
    unfolding verify_all_fields failure_reason_run_gates all_passed_run_gates
    using technical_reason [of gates env t] virtue_reason [of gates env t]
      ethics_reason [of gates env t]
    by (auto simp: judge_facts strategy_facts perception_facts effort_reason effort_passed)
  show ?thesis
    unfolding verify_all_fields
    using nonempty [unfolded verify_all_fields]
    by (simp add: failure_reason_run_gates details_lookup)
qed

theorem failure_reason_first_failing_gate_witness:
  "\<not> gate_passed (gate_technical all_enabled two_failures_env example_task) \<and>
   \<not> gate_passed (gate_ethics all_enabled two_failures_env example_task) \<and>
   failure_reason (verify_all all_enabled two_failures_env example_task) =
     Some ''Technical checks failed (coverage: 85%)'' \<and>
   map_option gate_reason
     (map_of (details (verify_all all_enabled two_failures_env example_task)) ''ethics'') =
     Some (Some ''Charter violations detected'')"
proof -
  have t: "\<not> gate_passed (gate_technical all_enabled two_failures_env example_task)"
    and tr: "gate_reason (gate_technical all_enabled two_failures_env example_task) =
      Some ''Technical checks failed (coverage: 85%)''"
    by (simp_all add: gate_technical_def gate_passed_def gate_reason_def dict_get_def Let_def
        two_failures_env_def example_env_def str_int_def)
  have e: "\<not> gate_passed (gate_ethics all_enabled two_failures_env example_task)"
    and er: "gate_reason (gate_ethics all_enabled two_failures_env example_task) =
      Some ''Charter violations detected''"
    by (simp_all add: gate_ethics_def gate_passed_def gate_reason_def dict_get_def Let_def
        two_failures_env_def example_env_def)
  show ?thesis
    using failure_reason_first_failing_gate [of all_enabled two_failures_env example_task]
      t tr e er
    by (simp add: all_enabled_enabled)
qed

text \<open>
  C6, as the claim states it, fails: with the threshold of the Effort gate's
  configuration at 0 (the only setting the gate has) and the Virtue gate reporting 10
  tokens, \<open>verify_all\<close> passes and reports no failure.
\<close>

theorem effort_ceiling_counterexample:
  "threshold (effort all_enabled) = 0 \<and>
   gate_tokens (gate_virtue all_enabled (example_env 1 10 True) example_task) = 10 \<and>
   passed (verify_all all_enabled (example_env 1 10 True) example_task) \<and>
   failure_reason (verify_all all_enabled (example_env 1 10 True) example_task) = None"
proof -
  have tk: "total_tokens (run_gates all_enabled (example_env 1 10 True) example_task) = 10"
    by (simp add: total_tokens_run_gates all_enabled_enabled example_gates_pass judge_facts
        perception_facts)
  have "threshold (effort all_enabled) = 0"
    by (simp add: all_enabled_def OracleGatekeeper_init_def GateConfig_init_def)
  then show ?thesis
    unfolding verify_all_fields failure_reason_run_gates all_passed_run_gates tk
    by (simp add: all_enabled_enabled example_gates_pass judge_facts strategy_facts
        perception_facts effort_passed)
qed

lemma gates_effort_threshold:
  "gate_technical (gates\<lparr>effort := (effort gates)\<lparr>threshold := x\<rparr>\<rparr>) env t =
     gate_technical gates env t"
  "gate_virtue (gates\<lparr>effort := (effort gates)\<lparr>threshold := x\<rparr>\<rparr>) env t =
     gate_virtue gates env t"
  "gate_ethics (gates\<lparr>effort := (effort gates)\<lparr>threshold := x\<rparr>\<rparr>) env t =
     gate_ethics gates env t"
  by (simp_all add: gate_technical_def gate_virtue_def gate_ethics_def
      cong: option.case_cong)

lemma blocks_effort_threshold:
  "block_technical (gates\<lparr>effort := (effort gates)\<lparr>threshold := x\<rparr>\<rparr>) env t l =
     block_technical gates env t l"
  "block_virtue (gates\<lparr>effort := (effort gates)\<lparr>threshold := x\<rparr>\<rparr>) env t l =
     block_virtue gates env t l"
  "block_ethics (gates\<lparr>effort := (effort gates)\<lparr>threshold := x\<rparr>\<rparr>) env t l =
     block_ethics gates env t l"
  "block_judge (gates\<lparr>effort := (effort gates)\<lparr>threshold := x\<rparr>\<rparr>) t l = block_judge gates t l"
  "block_strategy (gates\<lparr>effort := (effort gates)\<lparr>threshold := x\<rparr>\<rparr>) t l =
     block_strategy gates t l"
  "block_perception (gates\<lparr>effort := (effort gates)\<lparr>threshold := x\<rparr>\<rparr>) t l =
     block_perception gates t l"
  "block_effort (gates\<lparr>effort := (effort gates)\<lparr>threshold := x\<rparr>\<rparr>) t l = block_effort gates t l"
  by (simp_all add: block_defs gates_effort_threshold)

lemma run_gates_effort_threshold:
  "run_gates (gates\<lparr>effort := (effort gates)\<lparr>threshold := x\<rparr>\<rparr>) env t = run_gates gates env t"
  by (simp only: run_gates_def blocks_effort_threshold)

text \<open>
  C6, amended: the Effort gate passes if and only if the token cost accumulated from
  the Virtue, Judge and Perception gates does not exceed 50,000, a constant of the gate
  that no configuration changes; with the gate enabled and a cost above 50,000,
  \<open>verify_all\<close> returns \<open>passed = False\<close> with a failure reason, which is the
  budget message \<open>Token budget exceeded: n/50000\<close> when no earlier gate failed.
\<close>

theorem effort_fixed_ceiling:
  "(gate_passed (gate_effort t n) \<longleftrightarrow> n \<le> 50000) \<and>
   tokens_used (verify_all gates env t) =
     (if enabled (virtue gates) then gate_tokens (gate_virtue gates env t) else 0) +
     (if enabled (judge gates) then gate_tokens (gate_judge t) else 0) +
     (if enabled (perception gates) then gate_tokens (gate_perception t) else 0) \<and>
   (enabled (effort gates) \<longrightarrow>
      map_of (gate_status (verify_all gates env t)) ''effort'' =
        Some (tokens_used (verify_all gates env t) \<le> 50000)) \<and>
   (enabled (effort gates) \<and> tokens_used (verify_all gates env t) > 50000 \<longrightarrow>
      \<not> passed (verify_all gates env t) \<and>
      (\<exists>s. failure_reason (verify_all gates env t) = Some s \<and> s \<noteq> [])) \<and>
   (enabled (effort gates) \<and> tokens_used (verify_all gates env t) > 50000 \<and>
    (enabled (technical gates) \<longrightarrow> gate_passed (gate_technical gates env t)) \<and>
    (enabled (virtue gates) \<longrightarrow> gate_passed (gate_virtue gates env t)) \<and>
    (enabled (ethics gates) \<longrightarrow> gate_passed (gate_ethics gates env t)) \<longrightarrow>
      failure_reason (verify_all gates env t) =
        Some (''Token budget exceeded: '' @ str_int (tokens_used (verify_all gates env t)) @
              ''/50000'')) \<and>
   verify_all (gates\<lparr>effort := (effort gates)\<lparr>threshold := x\<rparr>\<rparr>) env t = verify_all gates env t"
proof -
  let ?r = "run_gates gates env t"
  have p: "enabled (effort gates) \<and> total_tokens ?r > 50000 \<longrightarrow>
      \<not> all_passed ?r \<and> (\<exists>s. failure_reason_l ?r = Some s \<and> s \<noteq> [])"
    unfolding failure_reason_run_gates all_passed_run_gates
    using technical_reason [of gates env t] virtue_reason [of gates env t]
      ethics_reason [of gates env t]
    by (auto simp: judge_facts strategy_facts perception_facts effort_reason effort_passed)
  have q: "enabled (effort gates) \<and> total_tokens ?r > 50000 \<and>
    (enabled (technical gates) \<longrightarrow> gate_passed (gate_technical gates env t)) \<and>
    (enabled (virtue gates) \<longrightarrow> gate_passed (gate_virtue gates env t)) \<and>
    (enabled (ethics gates) \<longrightarrow> gate_passed (gate_ethics gates env t)) \<longrightarrow>
      failure_reason_l ?r =
        Some (''Token budget exceeded: '' @ str_int (total_tokens ?r) @ ''/50000'')"
    unfolding failure_reason_run_gates
    by (auto simp: judge_facts strategy_facts perception_facts effort_reason effort_passed)
  have s: "enabled (effort gates) \<longrightarrow>
      map_of (results ?r) ''effort'' = Some (total_tokens ?r \<le> 50000)"
    by (simp add: results_lookup(7) effort_passed)
  have v: "verify_all (gates\<lparr>effort := (effort gates)\<lparr>threshold := x\<rparr>\<rparr>) env t =
      verify_all gates env t"
    by (simp add: verify_all_def run_gates_effort_threshold)
  show ?thesis
    unfolding verify_all_fields
    using p q s v [unfolded verify_all_fields] total_tokens_run_gates [of gates env t]
    by (simp add: effort_passed verify_all_fields)
qed

theorem effort_fixed_ceiling_witness:
  "tokens_used (verify_all all_enabled (example_env 1 50001 True) example_task) = 50001 \<and>
   \<not> passed (verify_all all_enabled (example_env 1 50001 True) example_task) \<and>
   failure_reason (verify_all all_enabled (example_env 1 50001 True) example_task) =
     Some ''Token budget exceeded: 50001/50000''"
proof -
  have g: "gate_passed (gate_technical all_enabled (example_env 1 50001 True) example_task)"
    "gate_passed (gate_virtue all_enabled (example_env 1 50001 True) example_task)"
    "gate_passed (gate_ethics all_enabled (example_env 1 50001 True) example_task)"
    "gate_tokens (gate_virtue all_enabled (example_env 1 50001 True) example_task) = 50001"
    by (simp_all add: gate_technical_def gate_virtue_def gate_ethics_def gate_passed_def
        gate_tokens_def dict_get_def Let_def all_enabled_def OracleGatekeeper_init_def
        GateConfig_init_def example_env_def)
  have s: "str_int 50001 = ''50001''"
    by (simp add: str_int_def)
  show ?thesis
    using effort_fixed_ceiling [of example_task 0 all_enabled "example_env 1 50001 True" 0] g s
    by (simp add: all_enabled_enabled judge_facts perception_facts)
qed

section \<open>Properties of the HITL controller\<close>

lemma checkpoint_scheduled:
  assumes "HITL_AUTO_APPROVE_LOW_RISK cfg"
  shows "checkpoint cfg cid now now' during sleeps tid SCHEDULED descr ctx blocking self =
     (AUTO_APPROVED,
      self\<lparr>objects := objects self @
        [\<lparr>checkpoint_id = cid, task_id = tid, reason = SCHEDULED, description = descr,
          context_hitl = (case ctx of None \<Rightarrow> [] | Some d \<Rightarrow> d),
          status_hitl = AUTO_APPROVED, created_at_hitl = now, resolved_at = Some now',
          resolved_by = None, notes_hitl = Some ''Auto-approved (low risk)''\<rparr>]\<rparr>)"
  using assms by (simp add: checkpoint_def Let_def set_object_def)

text \<open>
  C8: with the auto-approve flag on, \<open>checkpoint\<close> with reason \<open>SCHEDULED\<close> returns
  \<open>AUTO_APPROVED\<close>; the dictionary of pending checkpoints is unchanged, no call of the
  email or the webhook notifier is made, and nothing is awaited (the result does not
  depend on what other coroutines would do, nor on \<open>blocking\<close>).
\<close>

theorem checkpoint_scheduled_auto_approved:
  assumes "HITL_AUTO_APPROVE_LOW_RISK cfg"
  shows "fst (checkpoint cfg cid now now' during sleeps tid SCHEDULED descr ctx blocking self) =
           AUTO_APPROVED \<and>
         pending_checkpoints
           (snd (checkpoint cfg cid now now' during sleeps tid SCHEDULED descr ctx blocking self)) =
           pending_checkpoints self \<and>
         sent (snd (checkpoint cfg cid now now' during sleeps tid SCHEDULED descr ctx blocking self)) =
           sent self \<and>
         checkpoint cfg cid now now' during sleeps tid SCHEDULED descr ctx blocking self =
           checkpoint cfg cid now now' [] [] tid SCHEDULED descr ctx False self"
  by (simp add: checkpoint_scheduled [OF assms])

theorem checkpoint_scheduled_auto_approved_witness:
  "HITL_AUTO_APPROVE_LOW_RISK example_hitl_config \<and>
   fst (checkpoint example_hitl_config ''HITL-0A1B2C3D'' ''12:00'' ''12:00'' [] []
          ''task-002'' SCHEDULED ''Scheduled check-in: 50% complete'' None False
          example_controller) = AUTO_APPROVED \<and>
   pending_checkpoints
     (snd (checkpoint example_hitl_config ''HITL-0A1B2C3D'' ''12:00'' ''12:00'' [] []
          ''task-002'' SCHEDULED ''Scheduled check-in: 50% complete'' None False
          example_controller)) ''HITL-0A1B2C3D'' = None \<and>
   sent
     (snd (checkpoint example_hitl_config ''HITL-0A1B2C3D'' ''12:00'' ''12:00'' [] []
          ''task-002'' SCHEDULED ''Scheduled check-in: 50% complete'' None False
          example_controller)) = []"
proof -
  have h: "HITL_AUTO_APPROVE_LOW_RISK example_hitl_config"
    by (simp add: example_hitl_config_def)
  show ?thesis
    using checkpoint_scheduled_auto_approved [OF h, of "''HITL-0A1B2C3D''" "''12:00''"
        "''12:00''" "[]" "[]" "''task-002''" "''Scheduled check-in: 50% complete''" None False
        example_controller] h
    by (simp add: example_controller_def HITLController_init_def)
qed

lemma wait_loop_no_calls:
  assumes "pending_checkpoints self (checkpoint_id (objects self ! a)) = Some a"
    and "status_hitl (objects self ! a) = PENDING"
  shows "wait_loop tm now ts a elapsed [] self =
     (TIMEOUT,
      set_object a ((objects self ! a)\<lparr>status_hitl := TIMEOUT, resolved_at := Some now,
         notes_hitl := Some (''Timed out after '' @ str_int tm @ '' minutes'')\<rparr>) self)"
  using assms
proof (induction tm now ts a elapsed "[] :: resolve_call list list" self rule: wait_loop.induct)
  case (1 tm now ts a elapsed self)
  show ?case
  proof (cases "elapsed < ts")
    case True
    have "wait_loop tm now ts a elapsed [] self = wait_loop tm now ts a (elapsed + 5) [] self"
      using True "1.prems" by (subst wait_loop.simps) simp
    also have "\<dots> = (TIMEOUT,
      set_object a ((objects self ! a)\<lparr>status_hitl := TIMEOUT, resolved_at := Some now,
         notes_hitl := Some (''Timed out after '' @ str_int tm @ '' minutes'')\<rparr>) self)"
      using "1.hyps" [OF True "1.prems"(1)] "1.prems" by simp
    finally show ?thesis .
  next
    case False
    then show ?thesis
      by (subst wait_loop.simps) (simp add: Let_def)
  qed
qed

text \<open>
  C4 fails on the timeout path. A blocking checkpoint of reason \<open>HIGH_RISK\<close> that
  nobody resolves returns \<open>TIMEOUT\<close> after 30 minutes, the checkpoint object has the
  terminal status \<open>TIMEOUT\<close>, and its id is still a key of \<open>pending_checkpoints\<close>; a
  later \<open>resolve\<close> then finds it and gives it a second terminal status.
\<close>

theorem timeout_leaves_checkpoint_pending:
  "fst (checkpoint example_hitl_config ''HITL-0A1B2C3D'' ''12:00'' ''12:30'' [] []
          ''task-002'' HIGH_RISK ''High-risk task: Delete old logs'' None True
          example_controller) = TIMEOUT \<and>
   pending_checkpoints
     (snd (checkpoint example_hitl_config ''HITL-0A1B2C3D'' ''12:00'' ''12:30'' [] []
          ''task-002'' HIGH_RISK ''High-risk task: Delete old logs'' None True
          example_controller)) ''HITL-0A1B2C3D'' = Some 0 \<and>
   status_hitl
     (objects
       (snd (checkpoint example_hitl_config ''HITL-0A1B2C3D'' ''12:00'' ''12:30'' [] []
          ''task-002'' HIGH_RISK ''High-risk task: Delete old logs'' None True
          example_controller)) ! 0) = TIMEOUT \<and>
   status_hitl
     (objects
       (snd (resolve ''13:00'' ''HITL-0A1B2C3D'' True None ''human''
         (snd (checkpoint example_hitl_config ''HITL-0A1B2C3D'' ''12:00'' ''12:30'' [] []
            ''task-002'' HIGH_RISK ''High-risk task: Delete old logs'' None True
            example_controller)))) ! 0) = APPROVED"
  by (simp add: checkpoint_def Let_def example_hitl_config_def example_controller_def
      HITLController_init_def notify_def wait_for_resolution_def wait_loop_no_calls
      set_object_def resolve_def)

lemma resolve_removes_pending:
  "pending_checkpoints (snd (resolve now cid approved nts by self)) cid = None"
  by (simp add: resolve_def Let_def set_object_def split: option.splits)


section \<open>Properties of the engine loop\<close>

lemma example_next_task:
  "get_next_task ''12:00'' example_manager =
     (Some 1,
      save ''12:00''
        (set_task 1
          ((TaskState_init ''task-002'' ''Delete old logs'')
             \<lparr>status := ''in_progress'', started_at := Some ''12:00''\<rparr>)
          example_manager))"
  by (simp add: get_next_task_def example_manager_def TaskState_init_def Let_def)

lemma run_round_rejected:
  assumes "get_next_task now self = (Some i, self1)"
    and "detect_high_risk (title (tasks (state self1) ! i))"
    and "hitl (tasks (state self1) ! i) = REJECTED"
  shows "run_round now hitl rest self = Raised (AttributeError ''mark_skipped'') self1"
  using assms
  by (simp add: run_round_def Let_def call_mark_skipped_def StateManager_attributes_def)

text \<open>
  C2 fails on the code. The next pending task of the example plan is \<open>Delete old logs\<close>,
  which \<open>detect_high_risk\<close> flags. When its checkpoint returns \<open>REJECTED\<close> the round
  raises \<open>AttributeError\<close> (the state manager has no \<open>mark_skipped\<close>): the loop does not
  go on to a next task, and the task is left \<open>in_progress\<close>, in memory and in the store.
\<close>

theorem rejected_task_raises_attribute_error:
  "detect_high_risk ''Delete old logs'' \<and>
   (case run_round ''12:00'' (\<lambda>task. REJECTED) (\<lambda>i self. self) example_manager of
      Raised e self \<Rightarrow>
        e = AttributeError ''mark_skipped'' \<and>
        map status (tasks (state self)) = [''complete'', ''in_progress''] \<and>
        load self = Inr self
    | Break self \<Rightarrow> False
    | Next_round self \<Rightarrow> False)"
proof -
  have d: "detect_high_risk ''Delete old logs''"
    by (simp add: detect_high_risk_def high_risk_keywords_def lower_def lower_char_def)
  let ?s = "save ''12:00''
        (set_task 1
          ((TaskState_init ''task-002'' ''Delete old logs'')
             \<lparr>status := ''in_progress'', started_at := Some ''12:00''\<rparr>)
          example_manager)"
  have t: "title (tasks (state ?s) ! 1) = ''Delete old logs''"
    by (simp add: tasks_save_set_task example_manager_def TaskState_init_def)
  have r: "run_round ''12:00'' (\<lambda>task. REJECTED) (\<lambda>i self. self) example_manager =
      Raised (AttributeError ''mark_skipped'') ?s"
    by (rule run_round_rejected [OF example_next_task]) (simp_all only: t d)
  have st: "map status (tasks (state ?s)) = [''complete'', ''in_progress'']"
    by (simp add: tasks_save_set_task example_manager_def TaskState_init_def)
  have "store ?s = Json (PDict (PRDState_to_dict (state ?s)))"
    by (rule save_store)
  then have "load ?s = Inr (?s\<lparr>state := state ?s\<rparr>)"
    by (rule load_saved_document)
  then have ld: "load ?s = Inr ?s"
    by simp
  show ?thesis
    using d st ld by (simp add: r)
qed

end
